theory Spec2Isabelle
  imports Main "HOL-Library.Word"
begin

section \<open>Basic types and library functions used by the code\<close>

type_synonym int32 = "32 word"
type_synonym bytes = "8 word list"

text \<open>Go's \<open>strconv.Itoa\<close> (and \<open>%d\<close> of \<open>fmt\<close>): the decimal rendering
  of a signed integer.\<close>

definition digit_char :: "nat \<Rightarrow> char" where
  "digit_char n = ''0123456789'' ! (n mod 10)"

fun nat_digits :: "nat \<Rightarrow> string" where
  "nat_digits n =
     (if n < 10 then [digit_char n] else nat_digits (n div 10) @ [digit_char (n mod 10)])"

declare nat_digits.simps [simp del]

definition Itoa :: "int \<Rightarrow> string" where
  "Itoa i = (if i < 0 then CHR ''-'' # nat_digits (nat (- i)) else nat_digits (nat i))"

text \<open>Go's \<open>strconv.FormatBool\<close>.\<close>

definition FormatBool :: "bool \<Rightarrow> string" where
  "FormatBool b = (if b then ''true'' else ''false'')"

section \<open>Errors\<close>

text \<open>
  Go's \<open>error\<close> values that the two source files see: status errors of the cluster
  client (with the reason that \<open>k8serrors.IsAlreadyExists\<close> inspects), errors of
  \<open>text/template\<close>, errors built by \<open>fmt.Errorf\<close>, and the aggregate of
  \<open>errorsutil.NewAggregate\<close>. A Go \<open>error\<close> that may be \<open>nil\<close> is an
  \<open>error option\<close>, with \<open>None\<close> for \<open>nil\<close>.
\<close>

datatype StatusReason = AlreadyExists | NotFound | OtherReason string

datatype error =
    StatusError StatusReason string
  | TemplateError string
  | Errorf string
  | Aggregate "error list"

fun IsAlreadyExists :: "error option \<Rightarrow> bool" where
  "IsAlreadyExists (Some (StatusError AlreadyExists msg)) = True"
| "IsAlreadyExists err = False"

text \<open>\<open>errorsutil.NewAggregate\<close>: nil entries are dropped; the result is nil when
  nothing is left, the aggregate of the remaining errors (in order) otherwise.\<close>

definition NewAggregate :: "error option list \<Rightarrow> error option" where
  "NewAggregate errlist =
     (let errs = [e. Some e \<leftarrow> errlist]
      in if errs = [] then None else Some (Aggregate errs))"

section \<open>The subset of \<open>text/template\<close> that the client template uses\<close>

text \<open>
  A template is the sequence of its text pieces and actions, in source order. An action
  records whether it opens with the trim marker \<open>{{-\<close>, which removes the white space
  at the end of the text before it. The pipelines in use are a field of the data
  (\<open>{{ .name }}\<close>) and conditions built from \<open>not\<close> and \<open>eq .name "literal"\<close>.
\<close>

datatype tmpl_cond = CondEq string string | CondNot tmpl_cond

datatype tmpl_action = ActField string | ActIf tmpl_cond | ActElse | ActEnd

datatype tmpl_item = Text string | Action bool tmpl_action

definition is_space :: "char \<Rightarrow> bool" where
  "is_space c = (c = CHR '' '' \<or> c = CHR 0x09 \<or> c = CHR 0x0D \<or> c = CHR ''\<newline>'')"

definition rtrim :: "string \<Rightarrow> string" where
  "rtrim s = rev (dropWhile is_space (rev s))"

text \<open>The lexer's handling of the left trim marker.\<close>

fun trim_items :: "tmpl_item list \<Rightarrow> tmpl_item list" where
  "trim_items [] = []"
| "trim_items [x] = [x]"
| "trim_items (Text s # Action True a # rest) = Text (rtrim s) # Action True a # trim_items rest"
| "trim_items (x # y # rest) = x # trim_items (y # rest)"

text \<open>Nesting check of the parser: every \<open>else\<close> and \<open>end\<close> belongs to an open
  \<open>if\<close>, an \<open>if\<close> has at most one \<open>else\<close>, and every \<open>if\<close> is closed. The stack
  holds, for each open \<open>if\<close>, whether its \<open>else\<close> has been seen.\<close>

fun well_nested :: "tmpl_item list \<Rightarrow> bool list \<Rightarrow> bool" where
  "well_nested [] st = (st = [])"
| "well_nested (Text s # rest) st = well_nested rest st"
| "well_nested (Action t (ActField k) # rest) st = well_nested rest st"
| "well_nested (Action t (ActIf c) # rest) st = well_nested rest (False # st)"
| "well_nested (Action t ActElse # rest) [] = False"
| "well_nested (Action t ActElse # rest) (seen # st) = (\<not> seen \<and> well_nested rest (True # st))"
| "well_nested (Action t ActEnd # rest) [] = False"
| "well_nested (Action t ActEnd # rest) (seen # st) = well_nested rest st"

definition template_Parse :: "tmpl_item list \<Rightarrow> error + tmpl_item list" where
  "template_Parse items =
     (if well_nested items [] then Inr (trim_items items)
      else Inl (TemplateError ''template: config: unexpected action''))"

text \<open>A field of a \<open>map[string]string\<close>; a missing key gives the zero value.\<close>

definition field_value :: "(string \<rightharpoonup> string) \<Rightarrow> string \<Rightarrow> string" where
  "field_value data k = (case data k of None \<Rightarrow> '''' | Some v \<Rightarrow> v)"

fun eval_cond :: "(string \<rightharpoonup> string) \<Rightarrow> tmpl_cond \<Rightarrow> bool" where
  "eval_cond data (CondEq k lit) = (field_value data k = lit)"
| "eval_cond data (CondNot c) = (\<not> eval_cond data c)"

text \<open>Execution writes the text and the fields of the branches taken. The stack holds,
  for each open \<open>if\<close>, whether the branch being read is the one taken.\<close>

fun exec_items :: "tmpl_item list \<Rightarrow> (string \<rightharpoonup> string) \<Rightarrow> bool list \<Rightarrow> error + string" where
  "exec_items [] data st =
     (if st = [] then Inr '''' else Inl (TemplateError ''template: config: unexpected EOF''))"
| "exec_items (Text s # rest) data st =
     (case exec_items rest data st of Inl err \<Rightarrow> Inl err
      | Inr out \<Rightarrow> Inr ((if list_all id st then s else '''') @ out))"
| "exec_items (Action t (ActField k) # rest) data st =
     (case exec_items rest data st of Inl err \<Rightarrow> Inl err
      | Inr out \<Rightarrow> Inr ((if list_all id st then field_value data k else '''') @ out))"
| "exec_items (Action t (ActIf c) # rest) data st = exec_items rest data (eval_cond data c # st)"
| "exec_items (Action t ActElse # rest) data [] = Inl (TemplateError ''template: config: unexpected else'')"
| "exec_items (Action t ActElse # rest) data (b # st) = exec_items rest data ((\<not> b) # st)"
| "exec_items (Action t ActEnd # rest) data [] = Inl (TemplateError ''template: config: unexpected end'')"
| "exec_items (Action t ActEnd # rest) data (b # st) = exec_items rest data st"

definition template_Execute :: "tmpl_item list \<Rightarrow> (string \<rightharpoonup> string) \<Rightarrow> error + string" where
  "template_Execute tmpl data = exec_items tmpl data []"

section \<open>Data model\<close>

text \<open>\<open>types.NamespacedName\<close> (also \<open>client.ObjectKey\<close>) and its \<open>String\<close> method,
  which \<open>%s\<close> of \<open>fmt\<close> uses.\<close>

record NamespacedName =
  nn_Namespace :: string
  nn_Name :: string

definition NamespacedName_String :: "NamespacedName \<Rightarrow> string" where
  "NamespacedName_String n = nn_Namespace n @ ''/'' @ nn_Name n"

text \<open>The read interface of \<open>endpoint.Endpoint\<close>: the values of its accessor methods.\<close>

record Endpoint =
  e_Hostname :: string
  e_Port :: int32
  e_ExposedPort :: int32
  e_Labels :: "string \<rightharpoonup> string"

text \<open>\<open>transport.Options\<close>, with the fields that the client code reads.\<close>

record Options =
  CAVerifyLevel :: string
  ProxyURL :: string
  ProxyUsername :: string
  ProxyPassword :: string
  NoVerifyCA :: bool

record NamespacedPair =
  np_Source :: NamespacedName
  np_Destination :: NamespacedName

subsection \<open>Cluster objects and pod descriptors (\<open>corev1\<close>)\<close>

record ObjectMeta =
  om_Namespace :: string
  om_Name :: string
  om_Labels :: "string \<rightharpoonup> string"

record ConfigMap =
  cm_ObjectMeta :: ObjectMeta
  cm_Data :: "string \<rightharpoonup> string"

record Secret =
  sec_ObjectMeta :: ObjectMeta
  sec_Data :: "string \<rightharpoonup> bytes"

datatype Protocol = ProtocolTCP | ProtocolUDP | ProtocolSCTP

record ContainerPort =
  cp_Name :: string
  cp_Protocol :: Protocol
  cp_ContainerPort :: int32

record VolumeMount =
  vm_Name :: string
  vm_MountPath :: string
  vm_SubPath :: string

record Container =
  c_Name :: string
  c_Image :: string
  c_Command :: "string list"
  c_Ports :: "ContainerPort list"
  c_VolumeMounts :: "VolumeMount list"

record KeyToPath =
  ktp_Key :: string
  ktp_Path :: string

record ConfigMapVolumeSource =
  cmvs_Name :: string

record SecretVolumeSource =
  svs_SecretName :: string
  svs_Items :: "KeyToPath list"

text \<open>\<open>corev1.VolumeSource\<close> holds one pointer per kind of source; an unset pointer is
  \<open>None\<close>.\<close>

record VolumeSource =
  vs_ConfigMap :: "ConfigMapVolumeSource option"
  vs_Secret :: "SecretVolumeSource option"

record Volume =
  v_Name :: string
  v_VolumeSource :: VolumeSource

record ContainerStatus =
  cs_Name :: string
  cs_Ready :: bool

record Pod =
  pod_Namespace :: string
  pod_Name :: string
  pod_ContainerStatuses :: "ContainerStatus list"

subsection \<open>The stunnel transport\<close>

record StunnelTransport =
  crt :: bytes
  key :: bytes
  nsNamePair :: NamespacedPair
  options :: Options
  clientContainers :: "Container list"
  clientVolumes :: "Volume list"

text \<open>
  The package-level names that \<open>client.go\<close> uses and that are declared in another file
  of the package: the three string constants and the method \<open>getStunnelClientImage\<close>.
  They are parameters of the model.
\<close>

record stunnel_pkg =
  defaultStunnelClientConfig :: string
  defaultStunnelClientSecret :: string
  StunnelContainer :: string
  getStunnelClientImage :: "StunnelTransport \<Rightarrow> string"

text \<open>Modelled from the spec: the helper \<open>withPrefix\<close> is declared outside
  \<open>client.go\<close>; the spec gives the derived name as \<open><prefix>-<default name>\<close>.\<close>

definition withPrefix :: "string \<Rightarrow> string \<Rightarrow> string" where
  "withPrefix prefix name = prefix @ ''-'' @ name"

section \<open>The cluster client\<close>

text \<open>
  \<open>client.Client\<close> is an interface; a client is any implementation of its methods over
  a cluster state of type \<open>'s\<close>. \<open>Create\<close> and \<open>Update\<close> return the error (or nil),
  \<open>Get\<close> and \<open>List\<close> fill the object passed to them and return the error. The world
  that the code runs in is the cluster state together with the record of the client
  calls made so far.
\<close>

datatype k8s_object = ConfigMapObj ConfigMap | SecretObj Secret

datatype api_call =
    CreateCall k8s_object
  | UpdateCall k8s_object
  | GetCall NamespacedName
  | ListCall string "string \<rightharpoonup> string"

record 's Client =
  cl_Create :: "k8s_object \<Rightarrow> 's \<Rightarrow> error option \<times> 's"
  cl_Update :: "k8s_object \<Rightarrow> 's \<Rightarrow> error option \<times> 's"
  cl_Get :: "NamespacedName \<Rightarrow> 's \<Rightarrow> (error option \<times> Pod) \<times> 's"
  cl_List :: "string \<Rightarrow> (string \<rightharpoonup> string) \<Rightarrow> 's \<Rightarrow> (error option \<times> Pod list) \<times> 's"

record 's world =
  cluster :: 's
  calls :: "api_call list"

definition Create :: "'s Client \<Rightarrow> k8s_object \<Rightarrow> 's world \<Rightarrow> error option \<times> 's world" where
  "Create c obj w =
     (let (err, st) = cl_Create c obj (cluster w)
      in (err, \<lparr>cluster = st, calls = calls w @ [CreateCall obj]\<rparr>))"

definition Update :: "'s Client \<Rightarrow> k8s_object \<Rightarrow> 's world \<Rightarrow> error option \<times> 's world" where
  "Update c obj w =
     (let (err, st) = cl_Update c obj (cluster w)
      in (err, \<lparr>cluster = st, calls = calls w @ [UpdateCall obj]\<rparr>))"

definition Get :: "'s Client \<Rightarrow> NamespacedName \<Rightarrow> 's world \<Rightarrow> (error option \<times> Pod) \<times> 's world" where
  "Get c k w =
     (let (r, st) = cl_Get c k (cluster w)
      in (r, \<lparr>cluster = st, calls = calls w @ [GetCall k]\<rparr>))"

definition List :: "'s Client \<Rightarrow> string \<Rightarrow> (string \<rightharpoonup> string) \<Rightarrow> 's world
    \<Rightarrow> (error option \<times> Pod list) \<times> 's world" where
  "List c ns labels w =
     (let (r, st) = cl_List c ns labels (cluster w)
      in (r, \<lparr>cluster = st, calls = calls w @ [ListCall ns labels]\<rparr>))"

section \<open>\<open>state_transfer/transport/stunnel/client.go\<close>\<close>

text \<open>The constant \<open>stunnelClientConfTemplate\<close>, piece by piece in source order. Every
  \<open>if\<close>, \<open>else\<close> and \<open>end\<close> of it opens with \<open>{{-\<close>; the fields open with
  \<open>{{\<close>.\<close>

definition stunnelClientConfTemplate :: "tmpl_item list" where
  "stunnelClientConfTemplate =
    [Text ''\<newline> pid =\<newline> sslVersion = TLSv1.2\<newline> client = yes\<newline> syslog = no\<newline> output = /dev/stdout\<newline> [rsync]\<newline> debug = 7\<newline> accept = '',
     Action False (ActField ''stunnelPort''),
     Text ''\<newline> cert = /etc/stunnel/certs/tls.crt\<newline> key = /etc/stunnel/certs/tls.key\<newline>'',
     Action True (ActIf (CondNot (CondEq ''proxyHost'' ''''))),
     Text ''\<newline> protocol = connect\<newline> connect = '',
     Action False (ActField ''proxyHost''),
     Text ''\<newline> protocolHost = '',
     Action False (ActField ''hostname''),
     Text '':'',
     Action False (ActField ''port''),
     Text ''\<newline>'',
     Action True (ActIf (CondNot (CondEq ''proxyUsername'' ''''))),
     Text ''\<newline> protocolUsername = '',
     Action False (ActField ''proxyUsername''),
     Text ''\<newline>'',
     Action True ActEnd,
     Text ''\<newline>'',
     Action True (ActIf (CondNot (CondEq ''proxyPassword'' ''''))),
     Text ''\<newline> protocolPassword = '',
     Action False (ActField ''proxyPassword''),
     Text ''\<newline>'',
     Action True ActEnd,
     Text ''\<newline>'',
     Action True ActElse,
     Text ''\<newline> connect = '',
     Action False (ActField ''hostname''),
     Text '':'',
     Action False (ActField ''port''),
     Text ''\<newline>'',
     Action True ActEnd,
     Text ''\<newline>'',
     Action True (ActIf (CondNot (CondEq ''noVerifyCA'' ''false''))),
     Text ''\<newline> verify = '',
     Action False (ActField ''caVerifyLevel''),
     Text ''\<newline>'',
     Action True ActEnd,
     Text ''\<newline>'']"

text \<open>The first half of \<open>createClientConfig\<close> (up to the executed template): the
  resolved verify level, the template data, \<open>Parse\<close> and \<open>Execute\<close>.\<close>

definition renderClientConfig :: "StunnelTransport \<Rightarrow> Endpoint \<Rightarrow> error + string" where
  "renderClientConfig s e =
     (let caVerifyLevel =
            (if CAVerifyLevel (options s) = '''' then ''2'' else CAVerifyLevel (options s));
          connections =
            [''stunnelPort'' \<mapsto> Itoa (sint (e_Port e)),
             ''hostname'' \<mapsto> e_Hostname e,
             ''port'' \<mapsto> Itoa (sint (e_ExposedPort e)),
             ''proxyHost'' \<mapsto> ProxyURL (options s),
             ''proxyUsername'' \<mapsto> ProxyUsername (options s),
             ''proxyPassword'' \<mapsto> ProxyPassword (options s),
             ''caVerifyLevel'' \<mapsto> caVerifyLevel,
             ''noVerifyCA'' \<mapsto> FormatBool (NoVerifyCA (options s))]
      in case template_Parse stunnelClientConfTemplate of
           Inl err \<Rightarrow> Inl err
         | Inr stunnelConfTemplate \<Rightarrow> template_Execute stunnelConfTemplate connections)"

text \<open>The second half: the config object and the create-or-update calls.\<close>

definition clientConfigMap :: "stunnel_pkg \<Rightarrow> StunnelTransport \<Rightarrow> string \<Rightarrow> Endpoint \<Rightarrow> string
    \<Rightarrow> ConfigMap" where
  "clientConfigMap pkg s prefix e stunnelConf =
     \<lparr>cm_ObjectMeta =
        \<lparr>om_Namespace = nn_Namespace (np_Source (nsNamePair s)),
         om_Name = withPrefix prefix (defaultStunnelClientConfig pkg),
         om_Labels = e_Labels e\<rparr>,
      cm_Data = [''stunnel.conf'' \<mapsto> stunnelConf]\<rparr>"

definition createClientConfig :: "stunnel_pkg \<Rightarrow> 's Client \<Rightarrow> StunnelTransport \<Rightarrow> string \<Rightarrow> Endpoint
    \<Rightarrow> 's world \<Rightarrow> error option \<times> 's world" where
  "createClientConfig pkg c s prefix e w =
     (case renderClientConfig s e of
        Inl err \<Rightarrow> (Some err, w)
      | Inr stunnelConf \<Rightarrow>
          (let stunnelConfigMap = ConfigMapObj (clientConfigMap pkg s prefix e stunnelConf);
               (err, w1) = Create c stunnelConfigMap w
           in if err \<noteq> None \<and> \<not> IsAlreadyExists err then (err, w1)
              else if IsAlreadyExists err then
                (let (err2, w2) = Update c stunnelConfigMap w1
                 in if err2 \<noteq> None then (err2, w2) else (None, w2))
              else (None, w1)))"

definition clientSecret :: "stunnel_pkg \<Rightarrow> StunnelTransport \<Rightarrow> string \<Rightarrow> Endpoint \<Rightarrow> Secret" where
  "clientSecret pkg s prefix e =
     \<lparr>sec_ObjectMeta =
        \<lparr>om_Namespace = nn_Namespace (np_Source (nsNamePair s)),
         om_Name = withPrefix prefix (defaultStunnelClientSecret pkg),
         om_Labels = e_Labels e\<rparr>,
      sec_Data = [''tls.crt'' \<mapsto> crt s, ''tls.key'' \<mapsto> key s]\<rparr>"

definition createClientSecret :: "stunnel_pkg \<Rightarrow> 's Client \<Rightarrow> StunnelTransport \<Rightarrow> string \<Rightarrow> Endpoint
    \<Rightarrow> 's world \<Rightarrow> error option \<times> 's world" where
  "createClientSecret pkg c s prefix e w =
     (let stunnelSecret = SecretObj (clientSecret pkg s prefix e);
          (err, w1) = Create c stunnelSecret w
      in if err \<noteq> None \<and> \<not> IsAlreadyExists err then (err, w1) else (None, w1))"

definition setClientContainers :: "stunnel_pkg \<Rightarrow> StunnelTransport \<Rightarrow> Endpoint \<Rightarrow> StunnelTransport" where
  "setClientContainers pkg s e =
     s\<lparr>clientContainers :=
        [\<lparr>c_Name = StunnelContainer pkg,
          c_Image = getStunnelClientImage pkg s,
          c_Command = [''/bin/stunnel'', ''/etc/stunnel/stunnel.conf''],
          c_Ports =
            [\<lparr>cp_Name = ''stunnel'', cp_Protocol = ProtocolTCP, cp_ContainerPort = e_Port e\<rparr>],
          c_VolumeMounts =
            [\<lparr>vm_Name = defaultStunnelClientConfig pkg,
              vm_MountPath = ''/etc/stunnel/stunnel.conf'',
              vm_SubPath = ''stunnel.conf''\<rparr>,
             \<lparr>vm_Name = defaultStunnelClientSecret pkg,
              vm_MountPath = ''/etc/stunnel/certs'',
              vm_SubPath = ''''\<rparr>]\<rparr>]\<rparr>"

definition createClientVolumes :: "stunnel_pkg \<Rightarrow> StunnelTransport \<Rightarrow> string \<Rightarrow> StunnelTransport" where
  "createClientVolumes pkg s prefix =
     s\<lparr>clientVolumes :=
        [\<lparr>v_Name = defaultStunnelClientConfig pkg,
          v_VolumeSource =
            \<lparr>vs_ConfigMap = Some \<lparr>cmvs_Name = withPrefix prefix (defaultStunnelClientConfig pkg)\<rparr>,
             vs_Secret = None\<rparr>\<rparr>,
         \<lparr>v_Name = defaultStunnelClientSecret pkg,
          v_VolumeSource =
            \<lparr>vs_ConfigMap = None,
             vs_Secret =
               Some \<lparr>svs_SecretName = withPrefix prefix (defaultStunnelClientSecret pkg),
                     svs_Items =
                       [\<lparr>ktp_Key = ''tls.crt'', ktp_Path = ''tls.crt''\<rparr>,
                        \<lparr>ktp_Key = ''tls.key'', ktp_Path = ''tls.key''\<rparr>]\<rparr>\<rparr>\<rparr>]\<rparr>"

text \<open>The transport is passed by pointer and updated in place; the model returns the
  updated transport beside the error.\<close>

definition createClientResources :: "stunnel_pkg \<Rightarrow> 's Client \<Rightarrow> StunnelTransport \<Rightarrow> string \<Rightarrow> Endpoint
    \<Rightarrow> 's world \<Rightarrow> error option \<times> StunnelTransport \<times> 's world" where
  "createClientResources pkg c s prefix e w =
     (let errs = [];
          (err, w1) = createClientConfig pkg c s prefix e w;
          errs = errs @ [err];
          (err, w2) = createClientSecret pkg c s prefix e w1;
          errs = errs @ [err];
          s = setClientContainers pkg s e;
          s = createClientVolumes pkg s prefix
      in (NewAggregate errs, s, w2))"

definition CreateClient :: "stunnel_pkg \<Rightarrow> 's Client \<Rightarrow> StunnelTransport \<Rightarrow> string \<Rightarrow> Endpoint
    \<Rightarrow> 's world \<Rightarrow> error option \<times> StunnelTransport \<times> 's world" where
  "CreateClient pkg c s prefix e w = createClientResources pkg c s prefix e w"

section \<open>\<open>state_transfer/transfer/transfer.go\<close>\<close>

text \<open>The methods of the interfaces \<open>transport.Transport\<close> and \<open>Transfer\<close> that the
  connection functions call, as the values they return.\<close>

record Transport =
  t_Direct :: bool
  t_Port :: int32

record Transfer =
  tr_Endpoint :: Endpoint
  tr_Transport :: Transport

definition ConnectionHostname :: "Transfer \<Rightarrow> string" where
  "ConnectionHostname t =
     (if t_Direct (tr_Transport t) then e_Hostname (tr_Endpoint t) else ''localhost'')"

definition ConnectionPort :: "Transfer \<Rightarrow> int32" where
  "ConnectionPort t =
     (if t_Direct (tr_Transport t) then e_ExposedPort (tr_Endpoint t) else t_Port (tr_Transport t))"

definition pod_key :: "Pod \<Rightarrow> NamespacedName" where
  "pod_key pod = \<lparr>nn_Namespace = pod_Namespace pod, nn_Name = pod_Name pod\<rparr>"

text \<open>The range loop of \<open>areContainersReady\<close> over the container statuses.\<close>

fun containers_loop :: "Pod \<Rightarrow> ContainerStatus list \<Rightarrow> bool \<times> error option" where
  "containers_loop pod [] = (True, None)"
| "containers_loop pod (containerStatus # rest) =
     (if \<not> cs_Ready containerStatus then
        (False, Some (Errorf (''container '' @ cs_Name containerStatus @ '' in pod ''
                                @ NamespacedName_String (pod_key pod) @ '' is not ready'')))
      else containers_loop pod rest)"

definition areContainersReady :: "Pod \<Rightarrow> bool \<times> error option" where
  "areContainersReady pod =
     (if length (pod_ContainerStatuses pod) \<noteq> 2 then
        (False, Some (Errorf (''expected two container statuses found ''
                                @ Itoa (int (length (pod_ContainerStatuses pod)))
                                @ '', for pod '' @ NamespacedName_String (pod_key pod))))
      else containers_loop pod (pod_ContainerStatuses pod))"

definition IsPodHealthy :: "'s Client \<Rightarrow> NamespacedName \<Rightarrow> 's world \<Rightarrow> (bool \<times> error option) \<times> 's world" where
  "IsPodHealthy c pod w =
     (let ((err, p), w1) = Get c pod w
      in if err \<noteq> None then ((False, err), w1) else (areContainersReady p, w1))"

text \<open>The range loop of \<open>AreFilteredPodsHealthy\<close> over the listed pods, with the errors
  collected so far. Beside the values returned, the model counts the pods on which
  \<open>areContainersReady\<close> has been called.\<close>

fun pods_loop :: "Pod list \<Rightarrow> error option list \<Rightarrow> nat \<Rightarrow> (bool \<times> error option) \<times> nat" where
  "pods_loop [] errs n = ((False, NewAggregate errs), n)"
| "pods_loop (p # rest) errs n =
     (let (podReady, err) = areContainersReady p;
          errs = (if err \<noteq> None then errs @ [err] else errs)
      in if podReady then ((True, None), Suc n) else pods_loop rest errs (Suc n))"

definition AreFilteredPodsHealthy :: "'s Client \<Rightarrow> string \<Rightarrow> (string \<rightharpoonup> string) \<Rightarrow> 's world
    \<Rightarrow> (bool \<times> error option) \<times> 's world" where
  "AreFilteredPodsHealthy c namespace labels w =
     (let ((err, pList), w1) = List c namespace labels w
      in if err \<noteq> None then ((False, err), w1)
         else (fst (pods_loop pList [] 0), w1))"

section \<open>Lines of a configuration text\<close>

text \<open>The rendered configuration is line oriented: \<open>split_lines\<close> cuts a text at its
  newline characters, and the key of a line is what stands before the first blank or
  \<open>=\<close> after the indentation. \<open>directive_lines k txt\<close> are the lines of \<open>txt\<close>
  that set the option \<open>k\<close>.\<close>

definition nl_free :: "string \<Rightarrow> bool" where
  "nl_free s = (CHR ''\<newline>'' \<notin> set s)"

fun split_lines :: "string \<Rightarrow> string list" where
  "split_lines [] = [[]]"
| "split_lines (c # cs) =
     (if c = CHR ''\<newline>'' then [] # split_lines cs
      else (case split_lines cs of [] \<Rightarrow> [[c]] | l # ls \<Rightarrow> (c # l) # ls))"

definition key_of_line :: "string \<Rightarrow> string" where
  "key_of_line l =
     takeWhile (\<lambda>c. c \<noteq> CHR '' '' \<and> c \<noteq> CHR ''='') (dropWhile (\<lambda>c. c = CHR '' '') l)"

definition directive_lines :: "string \<Rightarrow> string \<Rightarrow> string list" where
  "directive_lines k txt = filter (\<lambda>l. key_of_line l = k) (split_lines txt)"

section \<open>Example clients and inputs\<close>

text \<open>
  Two implementations of the client interface, used to run the code on concrete inputs.
  The first keeps the cluster in memory: \<open>Create\<close> fails with the reason
  \<open>AlreadyExists\<close> when an object of the same kind, namespace and name is stored and
  stores the object otherwise; \<open>Update\<close> replaces the stored object and fails with
  \<open>NotFound\<close> when there is none. The second fails every call with a given error.
\<close>

record memory_cluster =
  mc_objects :: "k8s_object list"
  mc_pods :: "Pod list"

definition object_meta :: "k8s_object \<Rightarrow> ObjectMeta" where
  "object_meta obj =
     (case obj of ConfigMapObj cm \<Rightarrow> cm_ObjectMeta cm | SecretObj sec \<Rightarrow> sec_ObjectMeta sec)"

definition is_secret :: "k8s_object \<Rightarrow> bool" where
  "is_secret obj = (case obj of ConfigMapObj cm \<Rightarrow> False | SecretObj sec \<Rightarrow> True)"

definition same_object :: "k8s_object \<Rightarrow> k8s_object \<Rightarrow> bool" where
  "same_object a b =
     (is_secret a = is_secret b
      \<and> om_Namespace (object_meta a) = om_Namespace (object_meta b)
      \<and> om_Name (object_meta a) = om_Name (object_meta b))"

definition zero_pod :: Pod where
  "zero_pod = \<lparr>pod_Namespace = '''', pod_Name = '''', pod_ContainerStatuses = []\<rparr>"

definition memory_client :: "memory_cluster Client" where
  "memory_client =
     \<lparr>cl_Create = (\<lambda>obj st.
        if list_ex (same_object obj) (mc_objects st) then
          (Some (StatusError AlreadyExists (om_Name (object_meta obj))), st)
        else (None, st\<lparr>mc_objects := mc_objects st @ [obj]\<rparr>)),
      cl_Update = (\<lambda>obj st.
        if list_ex (same_object obj) (mc_objects st) then
          (None, st\<lparr>mc_objects := map (\<lambda>old. if same_object obj old then obj else old) (mc_objects st)\<rparr>)
        else (Some (StatusError NotFound (om_Name (object_meta obj))), st)),
      cl_Get = (\<lambda>k st.
        case find (\<lambda>p. pod_Namespace p = nn_Namespace k \<and> pod_Name p = nn_Name k) (mc_pods st) of
          None \<Rightarrow> ((Some (StatusError NotFound (nn_Name k)), zero_pod), st)
        | Some p \<Rightarrow> ((None, p), st)),
      cl_List = (\<lambda>ns labels st. ((None, filter (\<lambda>p. pod_Namespace p = ns) (mc_pods st)), st))\<rparr>"

definition broken_client :: "error \<Rightarrow> 's Client" where
  "broken_client err =
     \<lparr>cl_Create = (\<lambda>obj st. (Some err, st)),
      cl_Update = (\<lambda>obj st. (Some err, st)),
      cl_Get = (\<lambda>k st. ((Some err, zero_pod), st)),
      cl_List = (\<lambda>ns labels st. ((Some err, []), st))\<rparr>"

definition example_pkg :: stunnel_pkg where
  "example_pkg =
     \<lparr>defaultStunnelClientConfig = ''stunnel-client-config'',
      defaultStunnelClientSecret = ''stunnel-client-secret'',
      StunnelContainer = ''stunnel'',
      getStunnelClientImage = (\<lambda>s. ''registry.example/stunnel:latest'')\<rparr>"

definition example_transport :: StunnelTransport where
  "example_transport =
     \<lparr>crt = [1, 2, 3], key = [4, 5, 6],
      nsNamePair = \<lparr>np_Source = \<lparr>nn_Namespace = ''src'', nn_Name = ''data''\<rparr>,
                    np_Destination = \<lparr>nn_Namespace = ''dst'', nn_Name = ''data''\<rparr>\<rparr>,
      options = \<lparr>CAVerifyLevel = '''', ProxyURL = '''', ProxyUsername = '''',
                 ProxyPassword = '''', NoVerifyCA = False\<rparr>,
      clientContainers = [], clientVolumes = []\<rparr>"

definition example_endpoint :: Endpoint where
  "example_endpoint =
     \<lparr>e_Hostname = ''example.com'', e_Port = 2222, e_ExposedPort = 443, e_Labels = Map.empty\<rparr>"

text \<open>A cluster that already holds the client secret of the prefix \<open>pvc1\<close>, with other
  bytes, and an earlier revision of the client config.\<close>

definition stored_secret :: Secret where
  "stored_secret =
     \<lparr>sec_ObjectMeta = \<lparr>om_Namespace = ''src'', om_Name = ''pvc1-stunnel-client-secret'',
                        om_Labels = Map.empty\<rparr>,
      sec_Data = [''tls.crt'' \<mapsto> [7], ''tls.key'' \<mapsto> [8]]\<rparr>"

definition stored_config :: ConfigMap where
  "stored_config =
     \<lparr>cm_ObjectMeta = \<lparr>om_Namespace = ''src'', om_Name = ''pvc1-stunnel-client-config'',
                       om_Labels = Map.empty\<rparr>,
      cm_Data = [''stunnel.conf'' \<mapsto> ''old'']\<rparr>"

definition provisioned_world :: "memory_cluster world" where
  "provisioned_world =
     \<lparr>cluster = \<lparr>mc_objects = [ConfigMapObj stored_config, SecretObj stored_secret], mc_pods = []\<rparr>,
      calls = []\<rparr>"

definition empty_world :: "memory_cluster world" where
  "empty_world = \<lparr>cluster = \<lparr>mc_objects = [], mc_pods = []\<rparr>, calls = []\<rparr>"

text \<open>Three pods of the namespace \<open>dst\<close>: one whose transport container is not ready
  yet, one that is healthy, and one that reports a single container status.\<close>

definition starting_pod :: Pod where
  "starting_pod =
     \<lparr>pod_Namespace = ''dst'', pod_Name = ''rsync-a'',
      pod_ContainerStatuses = [\<lparr>cs_Name = ''rsync'', cs_Ready = True\<rparr>,
                               \<lparr>cs_Name = ''stunnel'', cs_Ready = False\<rparr>]\<rparr>"

definition ready_pod :: Pod where
  "ready_pod =
     \<lparr>pod_Namespace = ''dst'', pod_Name = ''rsync-b'',
      pod_ContainerStatuses = [\<lparr>cs_Name = ''rsync'', cs_Ready = True\<rparr>,
                               \<lparr>cs_Name = ''stunnel'', cs_Ready = True\<rparr>]\<rparr>"

definition malformed_pod :: Pod where
  "malformed_pod =
     \<lparr>pod_Namespace = ''dst'', pod_Name = ''rsync-c'',
      pod_ContainerStatuses = [\<lparr>cs_Name = ''rsync'', cs_Ready = True\<rparr>]\<rparr>"

definition pods_world :: "Pod list \<Rightarrow> memory_cluster world" where
  "pods_world ps = \<lparr>cluster = \<lparr>mc_objects = [], mc_pods = ps\<rparr>, calls = []\<rparr>"

section \<open>The rendered client configuration\<close>

text \<open>The fixed template passes the parser, and its execution never fails: the rendered text in closed form.\<close>

lemma parse_ok: "template_Parse stunnelClientConfTemplate = Inr (trim_items stunnelClientConfTemplate)"
  by (simp add: template_Parse_def stunnelClientConfTemplate_def)

lemma trim_eq: "trim_items stunnelClientConfTemplate =
    [Text ''\<newline> pid =\<newline> sslVersion = TLSv1.2\<newline> client = yes\<newline> syslog = no\<newline> output = /dev/stdout\<newline> [rsync]\<newline> debug = 7\<newline> accept = '',
     Action False (ActField ''stunnelPort''),
     Text ''\<newline> cert = /etc/stunnel/certs/tls.crt\<newline> key = /etc/stunnel/certs/tls.key'',
     Action True (ActIf (CondNot (CondEq ''proxyHost'' ''''))),
     Text ''\<newline> protocol = connect\<newline> connect = '',
     Action False (ActField ''proxyHost''),
     Text ''\<newline> protocolHost = '',
     Action False (ActField ''hostname''),
     Text '':'',
     Action False (ActField ''port''),
     Text '''',
     Action True (ActIf (CondNot (CondEq ''proxyUsername'' ''''))),
     Text ''\<newline> protocolUsername = '',
     Action False (ActField ''proxyUsername''),
     Text '''',
     Action True ActEnd,
     Text '''',
     Action True (ActIf (CondNot (CondEq ''proxyPassword'' ''''))),
     Text ''\<newline> protocolPassword = '',
     Action False (ActField ''proxyPassword''),
     Text '''',
     Action True ActEnd,
     Text '''',
     Action True ActElse,
     Text ''\<newline> connect = '',
     Action False (ActField ''hostname''),
     Text '':'',
     Action False (ActField ''port''),
     Text '''',
     Action True ActEnd,
     Text '''',
     Action True (ActIf (CondNot (CondEq ''noVerifyCA'' ''false''))),
     Text ''\<newline> verify = '',
     Action False (ActField ''caVerifyLevel''),
     Text '''',
     Action True ActEnd,
     Text ''\<newline>'']"
  by (simp add: stunnelClientConfTemplate_def rtrim_def is_space_def)

lemma render_eq:
  "renderClientConfig s e =
     Inr (''\<newline> pid =\<newline> sslVersion = TLSv1.2\<newline> client = yes\<newline> syslog = no\<newline> output = /dev/stdout\<newline> [rsync]\<newline> debug = 7\<newline> accept = ''
          @ Itoa (sint (e_Port e))
          @ ''\<newline> cert = /etc/stunnel/certs/tls.crt\<newline> key = /etc/stunnel/certs/tls.key''
          @ (if ProxyURL (options s) \<noteq> '''' then
               ''\<newline> protocol = connect\<newline> connect = '' @ ProxyURL (options s)
               @ ''\<newline> protocolHost = '' @ e_Hostname e @ '':'' @ Itoa (sint (e_ExposedPort e))
               @ (if ProxyUsername (options s) \<noteq> '''' then
                    ''\<newline> protocolUsername = '' @ ProxyUsername (options s) else '''')
               @ (if ProxyPassword (options s) \<noteq> '''' then
                    ''\<newline> protocolPassword = '' @ ProxyPassword (options s) else '''')
             else ''\<newline> connect = '' @ e_Hostname e @ '':'' @ Itoa (sint (e_ExposedPort e)))
          @ (if NoVerifyCA (options s) then
               ''\<newline> verify = ''
               @ (if CAVerifyLevel (options s) = '''' then ''2'' else CAVerifyLevel (options s))
             else '''')
          @ ''\<newline>'')"
  by (simp add: renderClientConfig_def parse_ok trim_eq template_Execute_def field_value_def
      FormatBool_def)

lemma digit_char_not_nl: "digit_char n \<noteq> CHR ''\<newline>''"
proof -
  have "digit_char n \<in> set ''0123456789''"
    unfolding digit_char_def by (rule nth_mem) simp
  then show ?thesis by auto
qed

lemma nl_free_nat_digits: "nl_free (nat_digits n)"
proof (induction n rule: nat_digits.induct)
  case (1 n)
  show ?case
  proof (cases "n < 10")
    case True
    then show ?thesis
      using digit_char_not_nl [of n] by (simp add: nat_digits.simps [of n] nl_free_def)
  next
    case False
    then show ?thesis
      using 1 digit_char_not_nl [of "n mod 10"] by (simp add: nat_digits.simps [of n] nl_free_def)
  qed
qed

lemma nl_free_Itoa: "nl_free (Itoa i)"
  using nl_free_nat_digits by (simp add: Itoa_def nl_free_def)

lemma nl_free_append: "nl_free (a @ b) = (nl_free a \<and> nl_free b)"
  by (auto simp: nl_free_def)

lemma nl_free_Cons: "nl_free (c # b) = (c \<noteq> CHR ''\<newline>'' \<and> nl_free b)"
  by (auto simp: nl_free_def)

lemma nl_free_Nil: "nl_free []"
  by (simp add: nl_free_def)

lemma split_lines_line: "nl_free a \<Longrightarrow> split_lines (a @ CHR ''\<newline>'' # b) = a # split_lines b"
  by (induction a) (auto simp: nl_free_def)

lemma split_lines_concat:
  "list_all nl_free ls \<Longrightarrow> split_lines (concat (map (\<lambda>l. l @ [CHR ''\<newline>'']) ls)) = ls @ [[]]"
  by (induction ls) (simp_all add: split_lines_line)

lemma render_as_lines:
  "renderClientConfig s e =
     Inr (CHR ''\<newline>'' # concat (map (\<lambda>l. l @ [CHR ''\<newline>''])
       (['' pid ='', '' sslVersion = TLSv1.2'', '' client = yes'', '' syslog = no'',
         '' output = /dev/stdout'', '' [rsync]'', '' debug = 7'',
         '' accept = '' @ Itoa (sint (e_Port e)),
         '' cert = /etc/stunnel/certs/tls.crt'', '' key = /etc/stunnel/certs/tls.key'']
        @ (if ProxyURL (options s) \<noteq> '''' then
             ['' protocol = connect'', '' connect = '' @ ProxyURL (options s),
              '' protocolHost = '' @ e_Hostname e @ '':'' @ Itoa (sint (e_ExposedPort e))]
             @ (if ProxyUsername (options s) \<noteq> '''' then
                  ['' protocolUsername = '' @ ProxyUsername (options s)] else [])
             @ (if ProxyPassword (options s) \<noteq> '''' then
                  ['' protocolPassword = '' @ ProxyPassword (options s)] else [])
           else ['' connect = '' @ e_Hostname e @ '':'' @ Itoa (sint (e_ExposedPort e))])
        @ (if NoVerifyCA (options s) then
             ['' verify = ''
              @ (if CAVerifyLevel (options s) = '''' then ''2'' else CAVerifyLevel (options s))]
           else []))))"
  by (simp add: render_eq)

lemma split_lines_text:
  "list_all nl_free ls \<Longrightarrow>
     split_lines (CHR ''\<newline>'' # concat (map (\<lambda>l. l @ [CHR ''\<newline>'']) ls)) = [] # ls @ [[]]"
  by (simp add: split_lines_concat)

lemma client_config_lines:
  assumes "nl_free (ProxyURL (options s))" and "nl_free (ProxyUsername (options s))"
    and "nl_free (ProxyPassword (options s))" and "nl_free (CAVerifyLevel (options s))"
    and "nl_free (e_Hostname e)"
  shows "\<exists>txt. renderClientConfig s e = Inr txt \<and>
     split_lines txt =
       [[], '' pid ='', '' sslVersion = TLSv1.2'', '' client = yes'', '' syslog = no'',
         '' output = /dev/stdout'', '' [rsync]'', '' debug = 7'',
         '' accept = '' @ Itoa (sint (e_Port e)),
         '' cert = /etc/stunnel/certs/tls.crt'', '' key = /etc/stunnel/certs/tls.key'']
        @ (if ProxyURL (options s) \<noteq> '''' then
             ['' protocol = connect'', '' connect = '' @ ProxyURL (options s),
              '' protocolHost = '' @ e_Hostname e @ '':'' @ Itoa (sint (e_ExposedPort e))]
             @ (if ProxyUsername (options s) \<noteq> '''' then
                  ['' protocolUsername = '' @ ProxyUsername (options s)] else [])
             @ (if ProxyPassword (options s) \<noteq> '''' then
                  ['' protocolPassword = '' @ ProxyPassword (options s)] else [])
           else ['' connect = '' @ e_Hostname e @ '':'' @ Itoa (sint (e_ExposedPort e))])
        @ (if NoVerifyCA (options s) then
             ['' verify = ''
              @ (if CAVerifyLevel (options s) = '''' then ''2'' else CAVerifyLevel (options s))]
           else [])
        @ [[]]"
  unfolding render_as_lines
  apply (rule exI, rule conjI, rule refl)
  apply (subst split_lines_text)
  using assms apply (simp add: nl_free_append nl_free_Cons nl_free_Nil nl_free_Itoa)
  apply simp
  done

text \<open>The keys of the lines that the template can write.\<close>

lemma key_of_line_simps:
  "key_of_line [] = []"
  "key_of_line ('' pid ='') = ''pid''"
  "key_of_line ('' sslVersion = TLSv1.2'') = ''sslVersion''"
  "key_of_line ('' client = yes'') = ''client''"
  "key_of_line ('' syslog = no'') = ''syslog''"
  "key_of_line ('' output = /dev/stdout'') = ''output''"
  "key_of_line ('' [rsync]'') = ''[rsync]''"
  "key_of_line ('' debug = 7'') = ''debug''"
  "key_of_line ('' accept = '' @ v) = ''accept''"
  "key_of_line ('' cert = /etc/stunnel/certs/tls.crt'') = ''cert''"
  "key_of_line ('' key = /etc/stunnel/certs/tls.key'') = ''key''"
  "key_of_line ('' protocol = connect'') = ''protocol''"
  "key_of_line ('' connect = '' @ v) = ''connect''"
  "key_of_line ('' protocolHost = '' @ v) = ''protocolHost''"
  "key_of_line ('' protocolUsername = '' @ v) = ''protocolUsername''"
  "key_of_line ('' protocolPassword = '' @ v) = ''protocolPassword''"
  "key_of_line ('' verify = '' @ v) = ''verify''"
  by (simp_all add: key_of_line_def)

lemma verify_directive_lines:
  assumes "nl_free (ProxyURL (options s))" and "nl_free (ProxyUsername (options s))"
    and "nl_free (ProxyPassword (options s))" and "nl_free (CAVerifyLevel (options s))"
    and "nl_free (e_Hostname e)"
  shows "\<exists>txt. renderClientConfig s e = Inr txt \<and>
     directive_lines ''verify'' txt =
       (if NoVerifyCA (options s) then
          ['' verify = ''
           @ (if CAVerifyLevel (options s) = '''' then ''2'' else CAVerifyLevel (options s))]
        else [])"
proof -
  from client_config_lines [OF assms] obtain conf where
    r: "renderClientConfig s e = Inr conf" and
    l: "split_lines conf =
       [[], '' pid ='', '' sslVersion = TLSv1.2'', '' client = yes'', '' syslog = no'',
         '' output = /dev/stdout'', '' [rsync]'', '' debug = 7'',
         '' accept = '' @ Itoa (sint (e_Port e)),
         '' cert = /etc/stunnel/certs/tls.crt'', '' key = /etc/stunnel/certs/tls.key'']
        @ (if ProxyURL (options s) \<noteq> '''' then
             ['' protocol = connect'', '' connect = '' @ ProxyURL (options s),
              '' protocolHost = '' @ e_Hostname e @ '':'' @ Itoa (sint (e_ExposedPort e))]
             @ (if ProxyUsername (options s) \<noteq> '''' then
                  ['' protocolUsername = '' @ ProxyUsername (options s)] else [])
             @ (if ProxyPassword (options s) \<noteq> '''' then
                  ['' protocolPassword = '' @ ProxyPassword (options s)] else [])
           else ['' connect = '' @ e_Hostname e @ '':'' @ Itoa (sint (e_ExposedPort e))])
        @ (if NoVerifyCA (options s) then
             ['' verify = ''
              @ (if CAVerifyLevel (options s) = '''' then ''2'' else CAVerifyLevel (options s))]
           else [])
        @ [[]]"
    by blast
  show ?thesis
    apply (rule exI [of _ conf])
    apply (simp only: r directive_lines_def l)
    apply (simp add: key_of_line_simps del: append.simps)
    done
qed

section \<open>Claims about the rendered client configuration\<close>

text \<open>
  C1. The claim: with an empty \<open>CAVerifyLevel\<close> the rendered client configuration has
  the line \<open>verify = 2\<close> unless \<open>NoVerifyCA\<close> is true, and then no \<open>verify\<close> line.
  The template guards the line with \<open>not (eq .noVerifyCA "false")\<close>, so the code does
  the opposite. Evaluated on a transport with default options and an endpoint
  \<open>example.com\<close> (port 2222, exposed port 443): with \<open>NoVerifyCA = false\<close> the rendered
  text has no \<open>verify\<close> line, and with \<open>NoVerifyCA = true\<close> it has the line
  \<open>verify = 2\<close>.
\<close>

theorem C1_verify_line_inverted:
  "renderClientConfig
     \<lparr>crt = [], key = [],
      nsNamePair = \<lparr>np_Source = \<lparr>nn_Namespace = ''src'', nn_Name = ''data''\<rparr>,
                    np_Destination = \<lparr>nn_Namespace = ''dst'', nn_Name = ''data''\<rparr>\<rparr>,
      options = \<lparr>CAVerifyLevel = '''', ProxyURL = '''', ProxyUsername = '''',
                 ProxyPassword = '''', NoVerifyCA = False\<rparr>,
      clientContainers = [], clientVolumes = []\<rparr>
     \<lparr>e_Hostname = ''example.com'', e_Port = 2222, e_ExposedPort = 443, e_Labels = Map.empty\<rparr>
   = Inr ''\<newline> pid =\<newline> sslVersion = TLSv1.2\<newline> client = yes\<newline> syslog = no\<newline> output = /dev/stdout\<newline> [rsync]\<newline> debug = 7\<newline> accept = 2222\<newline> cert = /etc/stunnel/certs/tls.crt\<newline> key = /etc/stunnel/certs/tls.key\<newline> connect = example.com:443\<newline>''
   \<and> directive_lines ''verify'' ''\<newline> pid =\<newline> sslVersion = TLSv1.2\<newline> client = yes\<newline> syslog = no\<newline> output = /dev/stdout\<newline> [rsync]\<newline> debug = 7\<newline> accept = 2222\<newline> cert = /etc/stunnel/certs/tls.crt\<newline> key = /etc/stunnel/certs/tls.key\<newline> connect = example.com:443\<newline>'' = []
   \<and> renderClientConfig
     \<lparr>crt = [], key = [],
      nsNamePair = \<lparr>np_Source = \<lparr>nn_Namespace = ''src'', nn_Name = ''data''\<rparr>,
                    np_Destination = \<lparr>nn_Namespace = ''dst'', nn_Name = ''data''\<rparr>\<rparr>,
      options = \<lparr>CAVerifyLevel = '''', ProxyURL = '''', ProxyUsername = '''',
                 ProxyPassword = '''', NoVerifyCA = True\<rparr>,
      clientContainers = [], clientVolumes = []\<rparr>
     \<lparr>e_Hostname = ''example.com'', e_Port = 2222, e_ExposedPort = 443, e_Labels = Map.empty\<rparr>
   = Inr ''\<newline> pid =\<newline> sslVersion = TLSv1.2\<newline> client = yes\<newline> syslog = no\<newline> output = /dev/stdout\<newline> [rsync]\<newline> debug = 7\<newline> accept = 2222\<newline> cert = /etc/stunnel/certs/tls.crt\<newline> key = /etc/stunnel/certs/tls.key\<newline> connect = example.com:443\<newline> verify = 2\<newline>''
   \<and> directive_lines ''verify'' ''\<newline> pid =\<newline> sslVersion = TLSv1.2\<newline> client = yes\<newline> syslog = no\<newline> output = /dev/stdout\<newline> [rsync]\<newline> debug = 7\<newline> accept = 2222\<newline> cert = /etc/stunnel/certs/tls.crt\<newline> key = /etc/stunnel/certs/tls.key\<newline> connect = example.com:443\<newline> verify = 2\<newline>'' = ['' verify = 2'']"
  by (simp add: render_eq Itoa_def nat_digits.simps digit_char_def directive_lines_def
      key_of_line_def)

text \<open>
  C5, as amended. The claim holds when the values written into the text (proxy URL, user
  name, password, verify level, host name) contain no newline: with a non-empty
  \<open>ProxyURL\<close> the text has the line \<open>protocol = connect\<close>, exactly one \<open>connect\<close>
  line, \<open>connect = <ProxyURL>\<close>, and the line \<open>protocolHost = <hostname>:<port>\<close>;
  the \<open>protocolUsername\<close> (\<open>protocolPassword\<close>) line is present, with the value
  verbatim, if and only if \<open>ProxyUsername\<close> (\<open>ProxyPassword\<close>) is non-empty. With an
  empty \<open>ProxyURL\<close> the only \<open>connect\<close> line is \<open>connect = <hostname>:<port>\<close> and
  no proxy line is written.
\<close>

theorem C5_proxy_lines:
  assumes "nl_free (ProxyURL (options s))" and "nl_free (ProxyUsername (options s))"
    and "nl_free (ProxyPassword (options s))" and "nl_free (CAVerifyLevel (options s))"
    and "nl_free (e_Hostname e)"
  shows "\<exists>txt. renderClientConfig s e = Inr txt \<and>
     (ProxyURL (options s) \<noteq> '''' \<longrightarrow>
        directive_lines ''protocol'' txt = ['' protocol = connect''] \<and>
        directive_lines ''connect'' txt = ['' connect = '' @ ProxyURL (options s)] \<and>
        directive_lines ''protocolHost'' txt =
          ['' protocolHost = '' @ e_Hostname e @ '':'' @ Itoa (sint (e_ExposedPort e))] \<and>
        directive_lines ''protocolUsername'' txt =
          (if ProxyUsername (options s) \<noteq> '''' then
             ['' protocolUsername = '' @ ProxyUsername (options s)] else []) \<and>
        directive_lines ''protocolPassword'' txt =
          (if ProxyPassword (options s) \<noteq> '''' then
             ['' protocolPassword = '' @ ProxyPassword (options s)] else [])) \<and>
     (ProxyURL (options s) = '''' \<longrightarrow>
        directive_lines ''connect'' txt =
          ['' connect = '' @ e_Hostname e @ '':'' @ Itoa (sint (e_ExposedPort e))] \<and>
        directive_lines ''protocol'' txt = [] \<and>
        directive_lines ''protocolHost'' txt = [] \<and>
        directive_lines ''protocolUsername'' txt = [] \<and>
        directive_lines ''protocolPassword'' txt = [])"
proof -
  from client_config_lines [OF assms] obtain conf where
    r: "renderClientConfig s e = Inr conf" and
    l: "split_lines conf =
       [[], '' pid ='', '' sslVersion = TLSv1.2'', '' client = yes'', '' syslog = no'',
         '' output = /dev/stdout'', '' [rsync]'', '' debug = 7'',
         '' accept = '' @ Itoa (sint (e_Port e)),
         '' cert = /etc/stunnel/certs/tls.crt'', '' key = /etc/stunnel/certs/tls.key'']
        @ (if ProxyURL (options s) \<noteq> '''' then
             ['' protocol = connect'', '' connect = '' @ ProxyURL (options s),
              '' protocolHost = '' @ e_Hostname e @ '':'' @ Itoa (sint (e_ExposedPort e))]
             @ (if ProxyUsername (options s) \<noteq> '''' then
                  ['' protocolUsername = '' @ ProxyUsername (options s)] else [])
             @ (if ProxyPassword (options s) \<noteq> '''' then
                  ['' protocolPassword = '' @ ProxyPassword (options s)] else [])
           else ['' connect = '' @ e_Hostname e @ '':'' @ Itoa (sint (e_ExposedPort e))])
        @ (if NoVerifyCA (options s) then
             ['' verify = ''
              @ (if CAVerifyLevel (options s) = '''' then ''2'' else CAVerifyLevel (options s))]
           else [])
        @ [[]]"
    by blast
  show ?thesis
    apply (rule exI [of _ conf])
    apply (simp only: r directive_lines_def l)
    apply (simp add: key_of_line_simps del: append.simps)
    done
qed

theorem C5_proxy_lines_witness:
  "nl_free ''proxy.example.com:3128'' \<and> nl_free ''alice'' \<and> nl_free '''' \<and> nl_free ''example.com''
   \<and> (\<exists>txt. renderClientConfig
         \<lparr>crt = [], key = [],
          nsNamePair = \<lparr>np_Source = \<lparr>nn_Namespace = ''src'', nn_Name = ''data''\<rparr>,
                        np_Destination = \<lparr>nn_Namespace = ''dst'', nn_Name = ''data''\<rparr>\<rparr>,
          options = \<lparr>CAVerifyLevel = '''', ProxyURL = ''proxy.example.com:3128'',
                     ProxyUsername = ''alice'', ProxyPassword = '''', NoVerifyCA = False\<rparr>,
          clientContainers = [], clientVolumes = []\<rparr>
         \<lparr>e_Hostname = ''example.com'', e_Port = 2222, e_ExposedPort = 443,
          e_Labels = Map.empty\<rparr> = Inr txt
      \<and> directive_lines ''protocol'' txt = ['' protocol = connect'']
      \<and> directive_lines ''connect'' txt = ['' connect = proxy.example.com:3128'']
      \<and> directive_lines ''protocolHost'' txt = ['' protocolHost = example.com:443'']
      \<and> directive_lines ''protocolUsername'' txt = ['' protocolUsername = alice'']
      \<and> directive_lines ''protocolPassword'' txt = [])"
  using C5_proxy_lines [of
         "\<lparr>crt = [], key = [],
          nsNamePair = \<lparr>np_Source = \<lparr>nn_Namespace = ''src'', nn_Name = ''data''\<rparr>,
                        np_Destination = \<lparr>nn_Namespace = ''dst'', nn_Name = ''data''\<rparr>\<rparr>,
          options = \<lparr>CAVerifyLevel = '''', ProxyURL = ''proxy.example.com:3128'',
                     ProxyUsername = ''alice'', ProxyPassword = '''', NoVerifyCA = False\<rparr>,
          clientContainers = [], clientVolumes = []\<rparr>"
         "\<lparr>e_Hostname = ''example.com'', e_Port = 2222, e_ExposedPort = 443,
          e_Labels = Map.empty\<rparr>"]
  by (simp add: nl_free_def Itoa_def nat_digits.simps digit_char_def)

text \<open>
  C5 as stated fails: the values are written verbatim, so a value with a newline adds
  lines of its own. With the proxy URL below and an empty \<open>ProxyUsername\<close> the rendered
  text has a \<open>protocolUsername\<close> line.
\<close>

theorem C5_injected_line_counterexample:
  "renderClientConfig
     \<lparr>crt = [], key = [],
      nsNamePair = \<lparr>np_Source = \<lparr>nn_Namespace = ''src'', nn_Name = ''data''\<rparr>,
                    np_Destination = \<lparr>nn_Namespace = ''dst'', nn_Name = ''data''\<rparr>\<rparr>,
      options = \<lparr>CAVerifyLevel = '''', ProxyURL = ''proxy:3128\<newline> protocolUsername = eve'',
                 ProxyUsername = '''', ProxyPassword = '''', NoVerifyCA = False\<rparr>,
      clientContainers = [], clientVolumes = []\<rparr>
     \<lparr>e_Hostname = ''example.com'', e_Port = 2222, e_ExposedPort = 443, e_Labels = Map.empty\<rparr>
   = Inr ''\<newline> pid =\<newline> sslVersion = TLSv1.2\<newline> client = yes\<newline> syslog = no\<newline> output = /dev/stdout\<newline> [rsync]\<newline> debug = 7\<newline> accept = 2222\<newline> cert = /etc/stunnel/certs/tls.crt\<newline> key = /etc/stunnel/certs/tls.key\<newline> protocol = connect\<newline> connect = proxy:3128\<newline> protocolUsername = eve\<newline> protocolHost = example.com:443\<newline>''
   \<and> directive_lines ''protocolUsername'' ''\<newline> pid =\<newline> sslVersion = TLSv1.2\<newline> client = yes\<newline> syslog = no\<newline> output = /dev/stdout\<newline> [rsync]\<newline> debug = 7\<newline> accept = 2222\<newline> cert = /etc/stunnel/certs/tls.crt\<newline> key = /etc/stunnel/certs/tls.key\<newline> protocol = connect\<newline> connect = proxy:3128\<newline> protocolUsername = eve\<newline> protocolHost = example.com:443\<newline>''
       = ['' protocolUsername = eve'']"
  by (simp add: render_eq Itoa_def nat_digits.simps digit_char_def directive_lines_def
      key_of_line_def)

section \<open>The create calls of the client side\<close>

lemma render_total: "\<exists>txt. renderClientConfig s e = Inr txt"
  by (simp add: render_eq)

lemma createClientConfig_unfold:
  assumes "renderClientConfig s e = Inr txt"
  shows "createClientConfig pkg c s prefix e w =
     (let obj = ConfigMapObj (clientConfigMap pkg s prefix e txt);
          (err1, st1) = cl_Create c obj (cluster w);
          (err2, st2) = cl_Update c obj st1
      in if IsAlreadyExists err1 then
           (err2, \<lparr>cluster = st2, calls = calls w @ [CreateCall obj, UpdateCall obj]\<rparr>)
         else (err1, \<lparr>cluster = st1, calls = calls w @ [CreateCall obj]\<rparr>))"
proof -
  obtain err1 st1 where c1:
    "cl_Create c (ConfigMapObj (clientConfigMap pkg s prefix e txt)) (cluster w) = (err1, st1)"
    by (cases "cl_Create c (ConfigMapObj (clientConfigMap pkg s prefix e txt)) (cluster w)")
  obtain err2 st2 where c2:
    "cl_Update c (ConfigMapObj (clientConfigMap pkg s prefix e txt)) st1 = (err2, st2)"
    by (cases "cl_Update c (ConfigMapObj (clientConfigMap pkg s prefix e txt)) st1")
  show ?thesis
  proof (cases "IsAlreadyExists err1")
    case True
    then have "err1 \<noteq> None" by (cases err1) auto
    with True show ?thesis
      by (cases err2) (simp_all add: createClientConfig_def assms Create_def Update_def c1 c2)
  next
    case False
    then show ?thesis
      by (cases err1) (simp_all add: createClientConfig_def assms Create_def Update_def c1 c2)
  qed
qed

lemma createClientSecret_unfold:
  "createClientSecret pkg c s prefix e w =
     (let obj = SecretObj (clientSecret pkg s prefix e);
          (err1, st1) = cl_Create c obj (cluster w)
      in (if IsAlreadyExists err1 then None else err1,
          \<lparr>cluster = st1, calls = calls w @ [CreateCall obj]\<rparr>))"
proof -
  obtain err1 st1 where c1:
    "cl_Create c (SecretObj (clientSecret pkg s prefix e)) (cluster w) = (err1, st1)"
    by (cases "cl_Create c (SecretObj (clientSecret pkg s prefix e)) (cluster w)")
  show ?thesis
    by (cases err1) (auto simp add: createClientSecret_def Create_def c1)
qed

text \<open>The definitions of the example clients and inputs, for the evaluation of the
  functions on them.\<close>

lemmas fixture_defs = example_pkg_def example_transport_def example_endpoint_def
  memory_client_def provisioned_world_def empty_world_def stored_secret_def stored_config_def
  same_object_def object_meta_def is_secret_def broken_client_def

section \<open>Claims about the client-side objects\<close>

text \<open>
  C2. \<open>createClientSecret\<close> makes exactly one client call, the \<open>Create\<close> of a secret
  whose data has exactly the keys \<open>tls.crt\<close> and \<open>tls.key\<close>, holding the transport's
  certificate and key bytes. \<open>Update\<close> is never called, so the cluster is left as that
  \<open>Create\<close> left it. When \<open>Create\<close> reports that the secret already exists the
  function returns nil; any other result of \<open>Create\<close> is returned unchanged.
\<close>

theorem C2_createClientSecret:
  "(let obj = SecretObj (clientSecret pkg s prefix e);
        (err1, st1) = cl_Create c obj (cluster w);
        (r, w') = createClientSecret pkg c s prefix e w
    in dom (sec_Data (clientSecret pkg s prefix e)) = {''tls.crt'', ''tls.key''} \<and>
       sec_Data (clientSecret pkg s prefix e) ''tls.crt'' = Some (crt s) \<and>
       sec_Data (clientSecret pkg s prefix e) ''tls.key'' = Some (key s) \<and>
       calls w' = calls w @ [CreateCall obj] \<and>
       cluster w' = st1 \<and>
       (IsAlreadyExists err1 \<longrightarrow> r = None) \<and>
       (\<not> IsAlreadyExists err1 \<longrightarrow> r = err1))"
  by (auto simp add: createClientSecret_unfold clientSecret_def split: prod.splits)

theorem C2_createClientSecret_witness:
  "IsAlreadyExists (fst (cl_Create memory_client
       (SecretObj (clientSecret example_pkg example_transport ''pvc1'' example_endpoint))
       (cluster provisioned_world)))
   \<and> fst (createClientSecret example_pkg memory_client example_transport ''pvc1'' example_endpoint
         provisioned_world) = None
   \<and> cluster (snd (createClientSecret example_pkg memory_client example_transport ''pvc1''
         example_endpoint provisioned_world)) = cluster provisioned_world
   \<and> calls (snd (createClientSecret example_pkg memory_client example_transport ''pvc1''
         example_endpoint provisioned_world))
       = [CreateCall (SecretObj (clientSecret example_pkg example_transport ''pvc1'' example_endpoint))]
   \<and> \<not> IsAlreadyExists (fst (cl_Create (broken_client (StatusError (OtherReason ''Forbidden'') ''denied''))
       (SecretObj (clientSecret example_pkg example_transport ''pvc1'' example_endpoint))
       (cluster provisioned_world)))
   \<and> fst (createClientSecret example_pkg (broken_client (StatusError (OtherReason ''Forbidden'') ''denied''))
         example_transport ''pvc1'' example_endpoint provisioned_world)
       = Some (StatusError (OtherReason ''Forbidden'') ''denied'')"
  using C2_createClientSecret [of example_pkg example_transport "''pvc1''" example_endpoint
      memory_client provisioned_world]
    C2_createClientSecret [of example_pkg example_transport "''pvc1''" example_endpoint
      "broken_client (StatusError (OtherReason ''Forbidden'') ''denied'')" provisioned_world]
  by (simp add: fixture_defs clientSecret_def withPrefix_def split: prod.splits)

text \<open>
  C3. \<open>createClientConfig\<close> always renders a text and first calls \<open>Create\<close> on the
  config object, whose data has the sole key \<open>stunnel.conf\<close> with the rendered text and
  whose name is \<open><prefix>-<defaultStunnelClientConfig>\<close>. If and only if \<open>Create\<close>
  fails with an already-exists error it calls \<open>Update\<close> with the same object, and returns
  what \<open>Update\<close> returned (nil on success); otherwise it makes no further call and returns
  what \<open>Create\<close> returned (nil on success).
\<close>

theorem C3_createClientConfig:
  "\<exists>txt. renderClientConfig s e = Inr txt \<and>
     (let cm = clientConfigMap pkg s prefix e txt;
          (err1, st1) = cl_Create c (ConfigMapObj cm) (cluster w);
          (err2, st2) = cl_Update c (ConfigMapObj cm) st1;
          (r, w') = createClientConfig pkg c s prefix e w
      in dom (cm_Data cm) = {''stunnel.conf''} \<and>
         cm_Data cm ''stunnel.conf'' = Some txt \<and>
         om_Name (cm_ObjectMeta cm) = prefix @ ''-'' @ defaultStunnelClientConfig pkg \<and>
         (IsAlreadyExists err1 \<longrightarrow>
            calls w' = calls w @ [CreateCall (ConfigMapObj cm), UpdateCall (ConfigMapObj cm)] \<and>
            cluster w' = st2 \<and> r = err2) \<and>
         (\<not> IsAlreadyExists err1 \<longrightarrow>
            calls w' = calls w @ [CreateCall (ConfigMapObj cm)] \<and>
            cluster w' = st1 \<and> r = err1))"
proof -
  obtain conf where r: "renderClientConfig s e = Inr conf"
    using render_total by blast
  show ?thesis
    apply (rule exI [of _ conf])
    apply (simp add: r createClientConfig_unfold [OF r] Let_def split: prod.splits)
    apply (auto simp add: clientConfigMap_def withPrefix_def)
    done
qed

theorem C3_createClientConfig_witness:
  "\<exists>txt. renderClientConfig example_transport example_endpoint = Inr txt
     \<and> IsAlreadyExists (fst (cl_Create memory_client
           (ConfigMapObj (clientConfigMap example_pkg example_transport ''pvc1'' example_endpoint txt))
           (cluster provisioned_world)))
     \<and> fst (createClientConfig example_pkg memory_client example_transport ''pvc1'' example_endpoint
           provisioned_world) = None
     \<and> mc_objects (cluster (snd (createClientConfig example_pkg memory_client example_transport
           ''pvc1'' example_endpoint provisioned_world)))
         = [ConfigMapObj (clientConfigMap example_pkg example_transport ''pvc1'' example_endpoint txt),
            SecretObj stored_secret]
     \<and> calls (snd (createClientConfig example_pkg memory_client example_transport
           ''pvc1'' example_endpoint provisioned_world))
         = [CreateCall (ConfigMapObj (clientConfigMap example_pkg example_transport ''pvc1'' example_endpoint txt)),
            UpdateCall (ConfigMapObj (clientConfigMap example_pkg example_transport ''pvc1'' example_endpoint txt))]
     \<and> \<not> IsAlreadyExists (fst (cl_Create memory_client
           (ConfigMapObj (clientConfigMap example_pkg example_transport ''pvc1'' example_endpoint txt))
           (cluster empty_world)))
     \<and> fst (createClientConfig example_pkg memory_client example_transport ''pvc1'' example_endpoint
           empty_world) = None
     \<and> mc_objects (cluster (snd (createClientConfig example_pkg memory_client example_transport
           ''pvc1'' example_endpoint empty_world)))
         = [ConfigMapObj (clientConfigMap example_pkg example_transport ''pvc1'' example_endpoint txt)]
     \<and> calls (snd (createClientConfig example_pkg memory_client example_transport
           ''pvc1'' example_endpoint empty_world))
         = [CreateCall (ConfigMapObj (clientConfigMap example_pkg example_transport ''pvc1'' example_endpoint txt))]"
proof -
  from C3_createClientConfig [of example_transport example_endpoint example_pkg "''pvc1''"
      memory_client provisioned_world]
  obtain conf where
    r: "renderClientConfig example_transport example_endpoint = Inr conf" and
    a: "(let cm = clientConfigMap example_pkg example_transport ''pvc1'' example_endpoint conf;
          (err1, st1) = cl_Create memory_client (ConfigMapObj cm) (cluster provisioned_world);
          (err2, st2) = cl_Update memory_client (ConfigMapObj cm) st1;
          (r, w') = createClientConfig example_pkg memory_client example_transport ''pvc1''
                      example_endpoint provisioned_world
      in dom (cm_Data cm) = {''stunnel.conf''} \<and>
         cm_Data cm ''stunnel.conf'' = Some conf \<and>
         om_Name (cm_ObjectMeta cm) = ''pvc1'' @ ''-'' @ defaultStunnelClientConfig example_pkg \<and>
         (IsAlreadyExists err1 \<longrightarrow>
            calls w' = calls provisioned_world
                       @ [CreateCall (ConfigMapObj cm), UpdateCall (ConfigMapObj cm)] \<and>
            cluster w' = st2 \<and> r = err2) \<and>
         (\<not> IsAlreadyExists err1 \<longrightarrow>
            calls w' = calls provisioned_world @ [CreateCall (ConfigMapObj cm)] \<and>
            cluster w' = st1 \<and> r = err1))"
    by blast
  from C3_createClientConfig [of example_transport example_endpoint example_pkg "''pvc1''"
      memory_client empty_world] r
  have b: "(let cm = clientConfigMap example_pkg example_transport ''pvc1'' example_endpoint conf;
          (err1, st1) = cl_Create memory_client (ConfigMapObj cm) (cluster empty_world);
          (err2, st2) = cl_Update memory_client (ConfigMapObj cm) st1;
          (r, w') = createClientConfig example_pkg memory_client example_transport ''pvc1''
                      example_endpoint empty_world
      in dom (cm_Data cm) = {''stunnel.conf''} \<and>
         cm_Data cm ''stunnel.conf'' = Some conf \<and>
         om_Name (cm_ObjectMeta cm) = ''pvc1'' @ ''-'' @ defaultStunnelClientConfig example_pkg \<and>
         (IsAlreadyExists err1 \<longrightarrow>
            calls w' = calls empty_world
                       @ [CreateCall (ConfigMapObj cm), UpdateCall (ConfigMapObj cm)] \<and>
            cluster w' = st2 \<and> r = err2) \<and>
         (\<not> IsAlreadyExists err1 \<longrightarrow>
            calls w' = calls empty_world @ [CreateCall (ConfigMapObj cm)] \<and>
            cluster w' = st1 \<and> r = err1))"
    by auto
  show ?thesis
    apply (rule exI [of _ conf])
    using a b r
    apply (simp add: fixture_defs clientConfigMap_def withPrefix_def Let_def split: prod.splits)
    done
qed

text \<open>
  C4. \<open>CreateClient\<close> runs the config step and then the secret step on the world that
  the config step left, whatever the config step returned: the config object's \<open>Create\<close>
  is among the calls made and the secret's \<open>Create\<close> is the last of them. The error
  returned is nil exactly when both steps returned nil; otherwise it is the aggregate of
  the errors of the steps that failed, in order.
\<close>

theorem C4_CreateClient_aggregate:
  "(let (err1, w1) = createClientConfig pkg c s prefix e w;
        (err2, w2) = createClientSecret pkg c s prefix e w1;
        (r, s', w') = CreateClient pkg c s prefix e w
    in w' = w2 \<and>
       (\<exists>txt. renderClientConfig s e = Inr txt \<and>
          CreateCall (ConfigMapObj (clientConfigMap pkg s prefix e txt)) \<in> set (calls w')) \<and>
       last (calls w') = CreateCall (SecretObj (clientSecret pkg s prefix e)) \<and>
       (r \<noteq> None \<longleftrightarrow> err1 \<noteq> None \<or> err2 \<noteq> None) \<and>
       r = (case (err1, err2) of
              (None, None) \<Rightarrow> None
            | (Some a, None) \<Rightarrow> Some (Aggregate [a])
            | (None, Some b) \<Rightarrow> Some (Aggregate [b])
            | (Some a, Some b) \<Rightarrow> Some (Aggregate [a, b])))"
proof -
  obtain conf where r: "renderClientConfig s e = Inr conf"
    using render_total by blast
  obtain err1 w1 where s1: "createClientConfig pkg c s prefix e w = (err1, w1)"
    by (cases "createClientConfig pkg c s prefix e w")
  obtain err2 w2 where s2: "createClientSecret pkg c s prefix e w1 = (err2, w2)"
    by (cases "createClientSecret pkg c s prefix e w1")
  have m1: "CreateCall (ConfigMapObj (clientConfigMap pkg s prefix e conf)) \<in> set (calls w1)"
    using s1 by (auto simp add: createClientConfig_unfold [OF r] Let_def split: prod.splits if_splits)
  have m2: "calls w2 = calls w1 @ [CreateCall (SecretObj (clientSecret pkg s prefix e))]"
    using s2 by (auto simp add: createClientSecret_unfold Let_def split: prod.splits)
  have agg: "NewAggregate [err1, err2] = (case (err1, err2) of
              (None, None) \<Rightarrow> None
            | (Some a, None) \<Rightarrow> Some (Aggregate [a])
            | (None, Some b) \<Rightarrow> Some (Aggregate [b])
            | (Some a, Some b) \<Rightarrow> Some (Aggregate [a, b]))"
    by (cases err1; cases err2) (simp_all add: NewAggregate_def)
  have res: "CreateClient pkg c s prefix e w =
      (NewAggregate [err1, err2], createClientVolumes pkg (setClientContainers pkg s e) prefix, w2)"
    by (simp add: CreateClient_def createClientResources_def s1 s2)
  show ?thesis
    unfolding s1 s2 res Let_def prod.case agg
    using m1 m2 r by (cases err1; cases err2) auto
qed

theorem C4_CreateClient_aggregate_witness:
  "fst (createClientConfig example_pkg (broken_client (StatusError (OtherReason ''Forbidden'') ''denied''))
          example_transport ''pvc1'' example_endpoint empty_world) \<noteq> None
   \<and> fst (CreateClient example_pkg (broken_client (StatusError (OtherReason ''Forbidden'') ''denied''))
          example_transport ''pvc1'' example_endpoint empty_world)
       = Some (Aggregate [StatusError (OtherReason ''Forbidden'') ''denied'',
                          StatusError (OtherReason ''Forbidden'') ''denied''])
   \<and> last (calls (snd (snd (CreateClient example_pkg
          (broken_client (StatusError (OtherReason ''Forbidden'') ''denied''))
          example_transport ''pvc1'' example_endpoint empty_world))))
       = CreateCall (SecretObj (clientSecret example_pkg example_transport ''pvc1'' example_endpoint))
   \<and> fst (CreateClient example_pkg memory_client example_transport ''pvc1'' example_endpoint
          empty_world) = None"
  using C4_CreateClient_aggregate [of example_pkg
      "broken_client (StatusError (OtherReason ''Forbidden'') ''denied'')"
      example_transport "''pvc1''" example_endpoint empty_world]
    C4_CreateClient_aggregate [of example_pkg memory_client
      example_transport "''pvc1''" example_endpoint empty_world]
    render_total [of example_transport example_endpoint]
  by (auto simp add: createClientConfig_unfold createClientSecret_unfold fixture_defs
      clientConfigMap_def clientSecret_def withPrefix_def Let_def split: prod.splits)

text \<open>
  C9. After \<open>CreateClient\<close> the transport holds exactly one client container (the fixed
  name, the transport's client image, the command \<open>/bin/stunnel /etc/stunnel/stunnel.conf\<close>,
  one TCP port equal to the endpoint's \<open>Port\<close>, the config mounted as the single file
  \<open>/etc/stunnel/stunnel.conf\<close> and the secret mounted at \<open>/etc/stunnel/certs\<close>) and
  exactly two volumes: one backed by the prefixed config object, one backed by the
  prefixed secret with exactly the items \<open>tls.crt\<close> and \<open>tls.key\<close>.
\<close>

theorem C9_client_descriptors:
  "(let (r, s', w') = CreateClient pkg c s prefix e w
    in clientContainers s' =
         [\<lparr>c_Name = StunnelContainer pkg,
           c_Image = getStunnelClientImage pkg s,
           c_Command = [''/bin/stunnel'', ''/etc/stunnel/stunnel.conf''],
           c_Ports =
             [\<lparr>cp_Name = ''stunnel'', cp_Protocol = ProtocolTCP, cp_ContainerPort = e_Port e\<rparr>],
           c_VolumeMounts =
             [\<lparr>vm_Name = defaultStunnelClientConfig pkg,
               vm_MountPath = ''/etc/stunnel/stunnel.conf'',
               vm_SubPath = ''stunnel.conf''\<rparr>,
              \<lparr>vm_Name = defaultStunnelClientSecret pkg,
               vm_MountPath = ''/etc/stunnel/certs'',
               vm_SubPath = ''''\<rparr>]\<rparr>] \<and>
       clientVolumes s' =
         [\<lparr>v_Name = defaultStunnelClientConfig pkg,
           v_VolumeSource =
             \<lparr>vs_ConfigMap = Some \<lparr>cmvs_Name = prefix @ ''-'' @ defaultStunnelClientConfig pkg\<rparr>,
              vs_Secret = None\<rparr>\<rparr>,
          \<lparr>v_Name = defaultStunnelClientSecret pkg,
           v_VolumeSource =
             \<lparr>vs_ConfigMap = None,
              vs_Secret =
                Some \<lparr>svs_SecretName = prefix @ ''-'' @ defaultStunnelClientSecret pkg,
                      svs_Items =
                        [\<lparr>ktp_Key = ''tls.crt'', ktp_Path = ''tls.crt''\<rparr>,
                         \<lparr>ktp_Key = ''tls.key'', ktp_Path = ''tls.key''\<rparr>]\<rparr>\<rparr>\<rparr>])"
  by (simp add: CreateClient_def createClientResources_def setClientContainers_def
      createClientVolumes_def withPrefix_def split: prod.splits)

text \<open>
  C10. Whatever the client does, and whatever error \<open>CreateClient\<close> returns (nil or
  not), the transport it leaves is the given one with \<open>clientContainers\<close> replaced by
  the one newly derived container and \<open>clientVolumes\<close> replaced by the two newly derived
  volumes; what the two fields held before is dropped.
\<close>

theorem C10_fields_set_on_failure:
  "(let (r, s', w') = CreateClient pkg c s prefix e w
    in s' = s
        \<lparr>clientContainers :=
           [\<lparr>c_Name = StunnelContainer pkg,
             c_Image = getStunnelClientImage pkg s,
             c_Command = [''/bin/stunnel'', ''/etc/stunnel/stunnel.conf''],
             c_Ports =
               [\<lparr>cp_Name = ''stunnel'', cp_Protocol = ProtocolTCP, cp_ContainerPort = e_Port e\<rparr>],
             c_VolumeMounts =
               [\<lparr>vm_Name = defaultStunnelClientConfig pkg,
                 vm_MountPath = ''/etc/stunnel/stunnel.conf'',
                 vm_SubPath = ''stunnel.conf''\<rparr>,
                \<lparr>vm_Name = defaultStunnelClientSecret pkg,
                 vm_MountPath = ''/etc/stunnel/certs'',
                 vm_SubPath = ''''\<rparr>]\<rparr>],
         clientVolumes :=
           [\<lparr>v_Name = defaultStunnelClientConfig pkg,
             v_VolumeSource =
               \<lparr>vs_ConfigMap = Some \<lparr>cmvs_Name = prefix @ ''-'' @ defaultStunnelClientConfig pkg\<rparr>,
                vs_Secret = None\<rparr>\<rparr>,
            \<lparr>v_Name = defaultStunnelClientSecret pkg,
             v_VolumeSource =
               \<lparr>vs_ConfigMap = None,
                vs_Secret =
                  Some \<lparr>svs_SecretName = prefix @ ''-'' @ defaultStunnelClientSecret pkg,
                        svs_Items =
                          [\<lparr>ktp_Key = ''tls.crt'', ktp_Path = ''tls.crt''\<rparr>,
                           \<lparr>ktp_Key = ''tls.key'', ktp_Path = ''tls.key''\<rparr>]\<rparr>\<rparr>\<rparr>]\<rparr>)"
  by (simp add: CreateClient_def createClientResources_def setClientContainers_def
      createClientVolumes_def withPrefix_def split: prod.splits)

text \<open>A run in which both steps fail, on a transport whose two fields are empty: the
  error returned is not nil, and the fields hold the derived container and the two derived
  volumes.\<close>

theorem C10_failing_run_witness:
  "fst (CreateClient example_pkg (broken_client (StatusError (OtherReason ''Forbidden'') ''denied''))
          example_transport ''pvc1'' example_endpoint empty_world)
     = Some (Aggregate [StatusError (OtherReason ''Forbidden'') ''denied'',
                        StatusError (OtherReason ''Forbidden'') ''denied''])
   \<and> clientContainers example_transport = [] \<and> clientVolumes example_transport = []
   \<and> clientContainers (fst (snd (CreateClient example_pkg
          (broken_client (StatusError (OtherReason ''Forbidden'') ''denied''))
          example_transport ''pvc1'' example_endpoint empty_world)))
       = [\<lparr>c_Name = ''stunnel'',
           c_Image = ''registry.example/stunnel:latest'',
           c_Command = [''/bin/stunnel'', ''/etc/stunnel/stunnel.conf''],
           c_Ports = [\<lparr>cp_Name = ''stunnel'', cp_Protocol = ProtocolTCP, cp_ContainerPort = 2222\<rparr>],
           c_VolumeMounts =
             [\<lparr>vm_Name = ''stunnel-client-config'',
               vm_MountPath = ''/etc/stunnel/stunnel.conf'',
               vm_SubPath = ''stunnel.conf''\<rparr>,
              \<lparr>vm_Name = ''stunnel-client-secret'',
               vm_MountPath = ''/etc/stunnel/certs'',
               vm_SubPath = ''''\<rparr>]\<rparr>]
   \<and> clientVolumes (fst (snd (CreateClient example_pkg
          (broken_client (StatusError (OtherReason ''Forbidden'') ''denied''))
          example_transport ''pvc1'' example_endpoint empty_world)))
       = [\<lparr>v_Name = ''stunnel-client-config'',
           v_VolumeSource =
             \<lparr>vs_ConfigMap = Some \<lparr>cmvs_Name = ''pvc1-stunnel-client-config''\<rparr>,
              vs_Secret = None\<rparr>\<rparr>,
          \<lparr>v_Name = ''stunnel-client-secret'',
           v_VolumeSource =
             \<lparr>vs_ConfigMap = None,
              vs_Secret =
                Some \<lparr>svs_SecretName = ''pvc1-stunnel-client-secret'',
                      svs_Items =
                        [\<lparr>ktp_Key = ''tls.crt'', ktp_Path = ''tls.crt''\<rparr>,
                         \<lparr>ktp_Key = ''tls.key'', ktp_Path = ''tls.key''\<rparr>]\<rparr>\<rparr>\<rparr>]"
proof -
  have err: "fst (CreateClient example_pkg
          (broken_client (StatusError (OtherReason ''Forbidden'') ''denied''))
          example_transport ''pvc1'' example_endpoint empty_world)
     = Some (Aggregate [StatusError (OtherReason ''Forbidden'') ''denied'',
                        StatusError (OtherReason ''Forbidden'') ''denied''])"
    using render_total [of example_transport example_endpoint]
    by (auto simp add: CreateClient_def createClientResources_def createClientConfig_unfold
        createClientSecret_unfold NewAggregate_def broken_client_def Let_def split: prod.splits)
  show ?thesis
    using err C10_fields_set_on_failure [of example_pkg
        "broken_client (StatusError (OtherReason ''Forbidden'') ''denied'')"
        example_transport "''pvc1''" example_endpoint empty_world]
    by (simp add: example_pkg_def example_transport_def example_endpoint_def split: prod.splits)
qed

section \<open>Connection address and health evaluation\<close>

text \<open>
  C6. For a direct transport the connection address is the endpoint's host name and
  exposed port; otherwise it is \<open>localhost\<close> and the transport's port.
\<close>

theorem C6_connection_address:
  "(t_Direct (tr_Transport t) \<longrightarrow>
      ConnectionHostname t = e_Hostname (tr_Endpoint t) \<and>
      ConnectionPort t = e_ExposedPort (tr_Endpoint t)) \<and>
   (\<not> t_Direct (tr_Transport t) \<longrightarrow>
      ConnectionHostname t = ''localhost'' \<and>
      ConnectionPort t = t_Port (tr_Transport t))"
  by (simp add: ConnectionHostname_def ConnectionPort_def)

theorem C6_connection_address_witness:
  "t_Direct (tr_Transport \<lparr>tr_Endpoint = example_endpoint,
                           tr_Transport = \<lparr>t_Direct = True, t_Port = 6443\<rparr>\<rparr>)
   \<and> ConnectionHostname \<lparr>tr_Endpoint = example_endpoint,
                         tr_Transport = \<lparr>t_Direct = True, t_Port = 6443\<rparr>\<rparr> = ''example.com''
   \<and> ConnectionPort \<lparr>tr_Endpoint = example_endpoint,
                     tr_Transport = \<lparr>t_Direct = True, t_Port = 6443\<rparr>\<rparr> = 443
   \<and> \<not> t_Direct (tr_Transport \<lparr>tr_Endpoint = example_endpoint,
                           tr_Transport = \<lparr>t_Direct = False, t_Port = 6443\<rparr>\<rparr>)
   \<and> ConnectionHostname \<lparr>tr_Endpoint = example_endpoint,
                         tr_Transport = \<lparr>t_Direct = False, t_Port = 6443\<rparr>\<rparr> = ''localhost''
   \<and> ConnectionPort \<lparr>tr_Endpoint = example_endpoint,
                     tr_Transport = \<lparr>t_Direct = False, t_Port = 6443\<rparr>\<rparr> = 6443"
  using C6_connection_address [of "\<lparr>tr_Endpoint = example_endpoint,
                                    tr_Transport = \<lparr>t_Direct = True, t_Port = 6443\<rparr>\<rparr>"]
    C6_connection_address [of "\<lparr>tr_Endpoint = example_endpoint,
                                tr_Transport = \<lparr>t_Direct = False, t_Port = 6443\<rparr>\<rparr>"]
  by (simp add: example_endpoint_def)

lemma containers_loop_find:
  "containers_loop pod css =
     (case find (\<lambda>cs. \<not> cs_Ready cs) css of
        None \<Rightarrow> (True, None)
      | Some cs \<Rightarrow>
          (False, Some (Errorf (''container '' @ cs_Name cs @ '' in pod ''
                                  @ NamespacedName_String (pod_key pod) @ '' is not ready''))))"
  by (induction css) simp_all

lemma find_None_list_all: "(find (\<lambda>cs. \<not> cs_Ready cs) css = None) = list_all cs_Ready css"
  by (induction css) simp_all

lemma areContainersReady_ready:
  "fst (areContainersReady pod) =
     (length (pod_ContainerStatuses pod) = 2 \<and> list_all cs_Ready (pod_ContainerStatuses pod))"
  by (auto simp add: areContainersReady_def containers_loop_find find_None_list_all [symmetric]
      split: option.splits)

lemma areContainersReady_error:
  "(snd (areContainersReady pod) = None) = fst (areContainersReady pod)"
  by (auto simp add: areContainersReady_def containers_loop_find split: option.splits)

text \<open>
  C7. \<open>areContainersReady\<close> returns \<open>(true, nil)\<close> if and only if the pod reports
  exactly two container statuses and all of them are ready. With another number of
  statuses it returns false and an error that gives the number found; with two statuses
  of which one is not ready it returns false and an error that names the first container
  that is not ready.
\<close>

theorem C7_areContainersReady:
  "(areContainersReady pod = (True, None) \<longleftrightarrow>
      length (pod_ContainerStatuses pod) = 2 \<and> list_all cs_Ready (pod_ContainerStatuses pod)) \<and>
   (length (pod_ContainerStatuses pod) \<noteq> 2 \<longrightarrow>
      areContainersReady pod =
        (False, Some (Errorf (''expected two container statuses found ''
                                @ Itoa (int (length (pod_ContainerStatuses pod)))
                                @ '', for pod '' @ pod_Namespace pod @ ''/'' @ pod_Name pod)))) \<and>
   (length (pod_ContainerStatuses pod) = 2 \<and> \<not> list_all cs_Ready (pod_ContainerStatuses pod) \<longrightarrow>
      (\<exists>cs. find (\<lambda>cs. \<not> cs_Ready cs) (pod_ContainerStatuses pod) = Some cs \<and>
            cs \<in> set (pod_ContainerStatuses pod) \<and> \<not> cs_Ready cs \<and>
            areContainersReady pod =
              (False, Some (Errorf (''container '' @ cs_Name cs @ '' in pod ''
                                      @ pod_Namespace pod @ ''/'' @ pod_Name pod
                                      @ '' is not ready'')))))"
proof (intro conjI impI)
  show "areContainersReady pod = (True, None) \<longleftrightarrow>
      length (pod_ContainerStatuses pod) = 2 \<and> list_all cs_Ready (pod_ContainerStatuses pod)"
    using areContainersReady_ready [of pod] areContainersReady_error [of pod]
    by (cases "areContainersReady pod") auto
next
  assume "length (pod_ContainerStatuses pod) \<noteq> 2"
  then show "areContainersReady pod =
        (False, Some (Errorf (''expected two container statuses found ''
                                @ Itoa (int (length (pod_ContainerStatuses pod)))
                                @ '', for pod '' @ pod_Namespace pod @ ''/'' @ pod_Name pod)))"
    by (simp add: areContainersReady_def NamespacedName_String_def pod_key_def)
next
  assume a: "length (pod_ContainerStatuses pod) = 2 \<and> \<not> list_all cs_Ready (pod_ContainerStatuses pod)"
  then obtain cs where f: "find (\<lambda>cs. \<not> cs_Ready cs) (pod_ContainerStatuses pod) = Some cs"
    using find_None_list_all [of "pod_ContainerStatuses pod"] by (cases "find (\<lambda>cs. \<not> cs_Ready cs) (pod_ContainerStatuses pod)") auto
  then have m: "cs \<in> set (pod_ContainerStatuses pod) \<and> \<not> cs_Ready cs"
    by (auto simp add: find_Some_iff)
  show "\<exists>cs. find (\<lambda>cs. \<not> cs_Ready cs) (pod_ContainerStatuses pod) = Some cs \<and>
            cs \<in> set (pod_ContainerStatuses pod) \<and> \<not> cs_Ready cs \<and>
            areContainersReady pod =
              (False, Some (Errorf (''container '' @ cs_Name cs @ '' in pod ''
                                      @ pod_Namespace pod @ ''/'' @ pod_Name pod
                                      @ '' is not ready'')))"
    apply (rule exI [of _ cs])
    using a f m
    apply (simp add: areContainersReady_def containers_loop_find NamespacedName_String_def pod_key_def)
    done
qed

theorem C7_areContainersReady_witness:
  "areContainersReady
     \<lparr>pod_Namespace = ''dst'', pod_Name = ''rsync-server'',
      pod_ContainerStatuses = [\<lparr>cs_Name = ''rsync'', cs_Ready = True\<rparr>,
                               \<lparr>cs_Name = ''stunnel'', cs_Ready = True\<rparr>]\<rparr> = (True, None)
   \<and> length (pod_ContainerStatuses
        \<lparr>pod_Namespace = ''dst'', pod_Name = ''rsync-server'',
         pod_ContainerStatuses = [\<lparr>cs_Name = ''rsync'', cs_Ready = True\<rparr>]\<rparr>) \<noteq> 2
   \<and> areContainersReady
        \<lparr>pod_Namespace = ''dst'', pod_Name = ''rsync-server'',
         pod_ContainerStatuses = [\<lparr>cs_Name = ''rsync'', cs_Ready = True\<rparr>]\<rparr>
       = (False, Some (Errorf ''expected two container statuses found 1, for pod dst/rsync-server''))
   \<and> areContainersReady
        \<lparr>pod_Namespace = ''dst'', pod_Name = ''rsync-server'',
         pod_ContainerStatuses = [\<lparr>cs_Name = ''rsync'', cs_Ready = True\<rparr>,
                                  \<lparr>cs_Name = ''stunnel'', cs_Ready = False\<rparr>]\<rparr>
       = (False, Some (Errorf ''container stunnel in pod dst/rsync-server is not ready''))"
  using C7_areContainersReady [of
      "\<lparr>pod_Namespace = ''dst'', pod_Name = ''rsync-server'',
        pod_ContainerStatuses = [\<lparr>cs_Name = ''rsync'', cs_Ready = True\<rparr>,
                                 \<lparr>cs_Name = ''stunnel'', cs_Ready = True\<rparr>]\<rparr>"]
    C7_areContainersReady [of
      "\<lparr>pod_Namespace = ''dst'', pod_Name = ''rsync-server'',
        pod_ContainerStatuses = [\<lparr>cs_Name = ''rsync'', cs_Ready = True\<rparr>]\<rparr>"]
    C7_areContainersReady [of
      "\<lparr>pod_Namespace = ''dst'', pod_Name = ''rsync-server'',
        pod_ContainerStatuses = [\<lparr>cs_Name = ''rsync'', cs_Ready = True\<rparr>,
                                 \<lparr>cs_Name = ''stunnel'', cs_Ready = False\<rparr>]\<rparr>"]
  by (simp add: Itoa_def nat_digits.simps digit_char_def)

lemma pods_loop_first_ready:
  assumes "list_all (\<lambda>q. \<not> fst (areContainersReady q)) pre" and "fst (areContainersReady p)"
  shows "pods_loop (pre @ p # rest) errs n = ((True, None), n + length pre + 1)"
  using assms
proof (induction pre arbitrary: errs n)
  case Nil
  then show ?case by (simp add: split_beta)
next
  case (Cons q pre)
  then show ?case by (simp add: split_beta)
qed

lemma pods_loop_none_ready:
  assumes "list_all (\<lambda>q. \<not> fst (areContainersReady q)) ps"
  shows "pods_loop ps errs n =
    ((False, NewAggregate (errs @ map (\<lambda>q. snd (areContainersReady q)) ps)), n + length ps)"
  using assms
proof (induction ps arbitrary: errs n)
  case Nil
  then show ?case by simp
next
  case (Cons q ps)
  from Cons.prems have nr: "\<not> fst (areContainersReady q)" by simp
  then have "snd (areContainersReady q) \<noteq> None"
    using areContainersReady_error [of q] by simp
  with Cons nr show ?case by (simp add: split_beta)
qed

lemma NewAggregate_all_errors:
  "es \<noteq> [] \<Longrightarrow> NewAggregate (map Some es) = Some (Aggregate es)"
proof -
  have "[e. Some e \<leftarrow> map Some es] = es" by (induction es) simp_all
  then show "es \<noteq> [] \<Longrightarrow> NewAggregate (map Some es) = Some (Aggregate es)"
    by (simp add: NewAggregate_def)
qed

lemma not_ready_errors:
  "list_all (\<lambda>q. \<not> fst (areContainersReady q)) ps \<Longrightarrow>
     \<exists>es. map Some es = map (\<lambda>q. snd (areContainersReady q)) ps"
proof (induction ps)
  case Nil
  then show ?case by simp
next
  case (Cons q ps)
  then obtain es where es: "map Some es = map (\<lambda>q. snd (areContainersReady q)) ps" by auto
  from Cons.prems have "snd (areContainersReady q) \<noteq> None"
    using areContainersReady_error [of q] by simp
  then obtain e where "snd (areContainersReady q) = Some e" by auto
  with es have "map Some (e # es) = map (\<lambda>q. snd (areContainersReady q)) (q # ps)" by simp
  then show ?case by blast
qed

text \<open>
  C8. Let the \<open>List\<close> call of \<open>AreFilteredPodsHealthy\<close> succeed with the pods
  \<open>pList\<close>. If a pod of the list is healthy and none before it is, the function returns
  \<open>(true, nil)\<close> and \<open>areContainersReady\<close> has been called on that pod and the ones
  before it only. If no pod is healthy, every pod has been evaluated and the function
  returns false with the aggregate of one error per pod, in order; for the empty list it
  returns \<open>(false, nil)\<close>.
\<close>

theorem C8_AreFilteredPodsHealthy:
  assumes "cl_List c namespace labels (cluster w) = ((None, pList), st)"
  shows "(pList = pre @ p # rest \<and> list_all (\<lambda>q. \<not> fst (areContainersReady q)) pre
            \<and> fst (areContainersReady p) \<longrightarrow>
          fst (AreFilteredPodsHealthy c namespace labels w) = (True, None) \<and>
          snd (pods_loop pList [] 0) = length pre + 1) \<and>
         (list_all (\<lambda>q. \<not> fst (areContainersReady q)) pList \<longrightarrow>
          (\<exists>es. map Some es = map (\<lambda>q. snd (areContainersReady q)) pList \<and>
             fst (AreFilteredPodsHealthy c namespace labels w)
               = (False, if pList = [] then None else Some (Aggregate es))) \<and>
          snd (pods_loop pList [] 0) = length pList) \<and>
         (pList = [] \<longrightarrow> fst (AreFilteredPodsHealthy c namespace labels w) = (False, None))"
proof -
  have res: "fst (AreFilteredPodsHealthy c namespace labels w) = fst (pods_loop pList [] 0)"
    by (simp add: AreFilteredPodsHealthy_def List_def assms)
  have first: "pList = pre @ p # rest \<and> list_all (\<lambda>q. \<not> fst (areContainersReady q)) pre
            \<and> fst (areContainersReady p) \<longrightarrow>
          fst (AreFilteredPodsHealthy c namespace labels w) = (True, None) \<and>
          snd (pods_loop pList [] 0) = length pre + 1"
    using pods_loop_first_ready [of pre p rest "[]" 0] by (auto simp add: res)
  have none: "list_all (\<lambda>q. \<not> fst (areContainersReady q)) pList \<longrightarrow>
          (\<exists>es. map Some es = map (\<lambda>q. snd (areContainersReady q)) pList \<and>
             fst (AreFilteredPodsHealthy c namespace labels w)
               = (False, if pList = [] then None else Some (Aggregate es))) \<and>
          snd (pods_loop pList [] 0) = length pList"
  proof
    assume nr: "list_all (\<lambda>q. \<not> fst (areContainersReady q)) pList"
    from not_ready_errors [OF nr] obtain es where
      es: "map Some es = map (\<lambda>q. snd (areContainersReady q)) pList" by blast
    have l: "pods_loop pList [] 0 =
        ((False, NewAggregate (map (\<lambda>q. snd (areContainersReady q)) pList)), length pList)"
      using pods_loop_none_ready [OF nr, of "[]" 0] by simp
    have e: "pList = [] \<longleftrightarrow> es = []"
      using es by (metis map_is_Nil_conv)
    have "NewAggregate (map (\<lambda>q. snd (areContainersReady q)) pList)
            = (if pList = [] then None else Some (Aggregate es))"
    proof (cases "es = []")
      case True
      with e show ?thesis by (simp add: NewAggregate_def)
    next
      case False
      with e NewAggregate_all_errors [OF False] es show ?thesis by simp
    qed
    with es l show "(\<exists>es. map Some es = map (\<lambda>q. snd (areContainersReady q)) pList \<and>
             fst (AreFilteredPodsHealthy c namespace labels w)
               = (False, if pList = [] then None else Some (Aggregate es))) \<and>
          snd (pods_loop pList [] 0) = length pList"
      by (auto simp add: res)
  qed
  have empty: "pList = [] \<longrightarrow> fst (AreFilteredPodsHealthy c namespace labels w) = (False, None)"
    by (simp add: res NewAggregate_def)
  from first none empty show ?thesis by blast
qed

theorem C8_AreFilteredPodsHealthy_witness:
  "cl_List memory_client ''dst'' Map.empty
       (cluster (pods_world [starting_pod, ready_pod, malformed_pod]))
     = ((None, [starting_pod, ready_pod, malformed_pod]),
        cluster (pods_world [starting_pod, ready_pod, malformed_pod]))
   \<and> list_all (\<lambda>q. \<not> fst (areContainersReady q)) [starting_pod]
   \<and> fst (areContainersReady ready_pod)
   \<and> fst (AreFilteredPodsHealthy memory_client ''dst'' Map.empty
          (pods_world [starting_pod, ready_pod, malformed_pod])) = (True, None)
   \<and> snd (pods_loop [starting_pod, ready_pod, malformed_pod] [] 0) = 2
   \<and> list_all (\<lambda>q. \<not> fst (areContainersReady q)) [starting_pod, malformed_pod]
   \<and> fst (AreFilteredPodsHealthy memory_client ''dst'' Map.empty
          (pods_world [starting_pod, malformed_pod]))
       = (False, Some (Aggregate
            [Errorf ''container stunnel in pod dst/rsync-a is not ready'',
             Errorf ''expected two container statuses found 1, for pod dst/rsync-c'']))
   \<and> snd (pods_loop [starting_pod, malformed_pod] [] 0) = 2
   \<and> fst (AreFilteredPodsHealthy memory_client ''dst'' Map.empty (pods_world [])) = (False, None)"
proof -
  have l1: "cl_List memory_client ''dst'' Map.empty
       (cluster (pods_world [starting_pod, ready_pod, malformed_pod]))
     = ((None, [starting_pod, ready_pod, malformed_pod]),
        cluster (pods_world [starting_pod, ready_pod, malformed_pod]))"
    by (simp add: memory_client_def pods_world_def starting_pod_def ready_pod_def
        malformed_pod_def)
  have l2: "cl_List memory_client ''dst'' Map.empty
       (cluster (pods_world [starting_pod, malformed_pod]))
     = ((None, [starting_pod, malformed_pod]),
        cluster (pods_world [starting_pod, malformed_pod]))"
    by (simp add: memory_client_def pods_world_def starting_pod_def malformed_pod_def)
  have l3: "cl_List memory_client ''dst'' Map.empty (cluster (pods_world []))
     = ((None, []), cluster (pods_world []))"
    by (simp add: memory_client_def pods_world_def)
  have r: "areContainersReady ready_pod = (True, None)"
    by (simp add: areContainersReady_def ready_pod_def)
  have s: "areContainersReady starting_pod
      = (False, Some (Errorf ''container stunnel in pod dst/rsync-a is not ready''))"
    by (simp add: areContainersReady_def starting_pod_def NamespacedName_String_def pod_key_def)
  have m: "areContainersReady malformed_pod
      = (False, Some (Errorf ''expected two container statuses found 1, for pod dst/rsync-c''))"
    by (simp add: areContainersReady_def malformed_pod_def NamespacedName_String_def pod_key_def
        Itoa_def nat_digits.simps digit_char_def)
  show ?thesis
    using C8_AreFilteredPodsHealthy [OF l1, of "[starting_pod]" ready_pod "[malformed_pod]"]
      C8_AreFilteredPodsHealthy [OF l2, of "[]" starting_pod "[malformed_pod]"]
      C8_AreFilteredPodsHealthy [OF l3, of "[]" starting_pod "[]"]
    by (auto simp add: l1 r s m)
qed

end
